theory Spec2Isabelle
  imports Main "HOL-Library.Word"
begin

unbundle bit_operations_syntax

section \<open>Common types (src/common/glc.h)\<close>

text \<open>
  Pointers and opaque handles are natural numbers, \<open>0\<close> being \<open>NULL\<close>. The C types
  \<open>unsigned int\<close>, \<open>u_int32_t\<close> and \<open>glc_flags_t\<close> are 32-bit words, \<open>glc_utime_t\<close>
  and the ALSA frame counts (\<open>snd_pcm_sframes_t\<close>, \<open>snd_pcm_uframes_t\<close>: \<open>long\<close> and
  \<open>unsigned long\<close>) are 64-bit words, \<open>int\<close> return codes are integers.
\<close>

type_synonym ptr = nat
type_synonym glc_flags_t = "32 word"
type_synonym glc_utime_t = "64 word"
type_synonym glc_ctx_i = "32 word"

definition NULL :: ptr where "NULL = 0"

definition GLC_CAPTURE :: glc_flags_t where "GLC_CAPTURE = 1"
definition GLC_CANCEL :: glc_flags_t where "GLC_CANCEL = 2"
definition GLC_AUDIO_ALLOW_SKIP :: glc_flags_t where "GLC_AUDIO_ALLOW_SKIP = 64"

definition GLC_CTX_CREATE :: glc_flags_t where "GLC_CTX_CREATE = 1"
definition GLC_CTX_UPDATE :: glc_flags_t where "GLC_CTX_UPDATE = 2"
definition GLC_CTX_BGR :: glc_flags_t where "GLC_CTX_BGR = 4"
definition GLC_CTX_BGRA :: glc_flags_t where "GLC_CTX_BGRA = 8"
definition GLC_CTX_YCBCR_420JPEG :: glc_flags_t where "GLC_CTX_YCBCR_420JPEG = 16"

text \<open>The two \<open>errno\<close> values the sources return (Linux numbering).\<close>

definition EAGAIN :: int where "EAGAIN = 11"
definition EINVAL :: int where "EINVAL = 22"

section \<open>Capture descriptor parsing (src/hook/alsa.c, alsa_parse_capture_cfg)\<close>

subsection \<open>The C library calls the parser makes\<close>

text \<open>
  A C string is the list of its characters before the terminating NUL; a pointer into it
  is the suffix that starts there, and \<open>NULL\<close> is \<open>None\<close>.
  \<open>strstr s [c]\<close> for a one-character needle is the suffix of \<open>s\<close> from the first
  \<open>c\<close>, or \<open>NULL\<close>.
\<close>

definition strstr1 :: "string \<Rightarrow> char \<Rightarrow> string option" where
  "strstr1 s c =
     (let r = dropWhile (\<lambda>x. x \<noteq> c) s in if r = [] then None else Some r)"

definition isspace :: "char \<Rightarrow> bool" where
  "isspace c = (c \<in> set [CHR '' '', CHR 0x09, CHR 0x0A, CHR 0x0B, CHR 0x0C, CHR 0x0D])"

definition isdigit :: "char \<Rightarrow> bool" where
  "isdigit c = (c \<in> set ''0123456789'')"

definition digit_val :: "char \<Rightarrow> nat" where
  "digit_val c = of_char c - 48"

definition decimal :: "string \<Rightarrow> nat" where
  "decimal ds = foldl (\<lambda>a c. 10 * a + digit_val c) 0 ds"

text \<open>
  The conversion \<open>%u\<close> of \<open>sscanf\<close>: white space is skipped, an optional sign is read,
  and at least one decimal digit must follow, else the conversion fails (\<open>None\<close>) and
  \<open>sscanf\<close> stops. The result is the number read and the rest of the input. The number
  is stored in an \<open>unsigned int\<close>; a value that does not fit is undefined in ISO C and
  is reduced modulo \<open>2 ^ 32\<close> here.
\<close>

definition scan_u :: "string \<Rightarrow> (32 word \<times> string) option" where
  "scan_u s =
     (let s1 = dropWhile isspace s;
          neg = (s1 \<noteq> [] \<and> hd s1 = CHR ''-'');
          s2 = (if s1 \<noteq> [] \<and> (hd s1 = CHR ''-'' \<or> hd s1 = CHR ''+'') then tl s1 else s1);
          ds = takeWhile isdigit s2
      in if ds = [] then None
         else Some (if neg then - of_nat (decimal ds) else of_nat (decimal ds),
                    dropWhile isdigit s2))"

text \<open>
  \<open>sscanf(args, ",%u,%u", &rate, &channels)\<close>: \<open>rate\<close> and \<open>channels\<close> keep their
  values from the first directive that fails on.
\<close>

definition sscanf_rate_channels :: "string \<Rightarrow> 32 word \<times> 32 word \<Rightarrow> 32 word \<times> 32 word" where
  "sscanf_rate_channels args rc =
     (case args of
        [] \<Rightarrow> rc
      | c # r \<Rightarrow>
          if c \<noteq> CHR '','' then rc
          else (case scan_u r of
                  None \<Rightarrow> rc
                | Some (rate', r1) \<Rightarrow>
                    (case r1 of
                       [] \<Rightarrow> (rate', snd rc)
                     | c1 # r2 \<Rightarrow>
                         if c1 \<noteq> CHR '','' then (rate', snd rc)
                         else (case scan_u r2 of
                                 None \<Rightarrow> (rate', snd rc)
                               | Some (channels', r3) \<Rightarrow> (rate', channels')))))"

subsection \<open>Heap blocks\<close>

text \<open>
  A block returned by \<open>malloc (n)\<close>: \<open>alloc\<close> is \<open>n\<close>, the number of bytes that belong
  to the block, and \<open>bytes\<close> are the bytes the program has stored from offset 0 on, in
  order. A store stays inside the block exactly when its offset is below \<open>alloc\<close>, so
  the stores of a block are all inside it exactly when \<open>length bytes \<le> alloc\<close>.
\<close>

record heap_block =
  alloc :: nat
  bytes :: "char list"

definition malloc :: "nat \<Rightarrow> heap_block" where
  "malloc n = \<lparr> alloc = n, bytes = [] \<rparr>"

text \<open>\<open>memcpy (b, src, len)\<close> into a fresh block: offsets \<open>0 ..< len\<close> receive \<open>src\<close>.\<close>

definition memcpy :: "heap_block \<Rightarrow> string \<Rightarrow> nat \<Rightarrow> heap_block" where
  "memcpy b src len = b \<lparr> bytes := take len src \<rparr>"

text \<open>\<open>b[i] = c\<close> where \<open>i\<close> is the first offset not yet stored.\<close>

definition store_next :: "heap_block \<Rightarrow> char \<Rightarrow> heap_block" where
  "store_next b c = b \<lparr> bytes := bytes b @ [c] \<rparr>"

definition in_bounds :: "heap_block \<Rightarrow> bool" where
  "in_bounds b = (length (bytes b) \<le> alloc b)"

text \<open>The C string a block holds: its bytes up to the first NUL.\<close>

definition c_str :: "heap_block \<Rightarrow> string" where
  "c_str b = takeWhile (\<lambda>c. c \<noteq> CHR 0x00) (bytes b)"

subsection \<open>The stream list\<close>

text \<open>
  \<open>struct alsa_capture_stream_s\<close>; the \<open>next\<close> pointers make the list, whose head is
  \<open>alsa.capture_stream\<close>.
\<close>

record alsa_capture_stream_s =
  capture :: ptr
  device :: heap_block
  channels :: "32 word"
  rate :: "32 word"

text \<open>
  One turn of the loop body after the delimiters are skipped and the end of the input
  is excluded: \<open>device\<close> is the non-empty rest of the descriptor.
\<close>

definition parse_stream :: "string \<Rightarrow> alsa_capture_stream_s" where
  "parse_stream dev =
     (let args = strstr1 dev CHR '','';
          (rate', channels') =
             (case args of None \<Rightarrow> (44100, 1) | Some a \<Rightarrow> sscanf_rate_channels a (44100, 1));
          nxt = strstr1 dev CHR '';'';
          len = (case args of
                   Some a \<Rightarrow> length dev - length a
                 | None \<Rightarrow> (case nxt of Some n \<Rightarrow> length dev - length n | None \<Rightarrow> length dev));
          buf = store_next (memcpy (malloc len) dev len) (CHR 0x00)
      in \<lparr> capture = NULL, device = buf, channels = channels', rate = rate' \<rparr>)"

function parse_loop ::
  "string option \<Rightarrow> alsa_capture_stream_s list \<Rightarrow> alsa_capture_stream_s list" where
  "parse_loop None streams = streams"
| "parse_loop (Some d) streams =
     (let dev = dropWhile (\<lambda>c. c = CHR '';'') d in
      if dev = [] then streams
      else parse_loop (strstr1 dev CHR '';'') (parse_stream dev # streams))"
  by pat_completeness auto
termination
proof (relation "measure (\<lambda>(d, s). case d of None \<Rightarrow> 0 | Some x \<Rightarrow> Suc (length x))")
  show "wf (measure (\<lambda>(d, s). case d of None \<Rightarrow> 0 | Some x \<Rightarrow> Suc (length x)))"
    by simp
next
  fix d :: string and streams :: "alsa_capture_stream_s list" and dev
  assume dev: "dev = dropWhile (\<lambda>c. c = CHR '';'') d" and ne: "dev \<noteq> []"
  from ne obtain x xs where cons: "dev = x # xs"
    by (cases dev) auto
  have "\<not> (\<lambda>c. c = CHR '';'') (hd dev)"
    using ne unfolding dev by (rule hd_dropWhile)
  then have x: "x \<noteq> CHR '';''"
    by (simp add: cons)
  have "length (dropWhile (\<lambda>x. x \<noteq> CHR '';'') xs) \<le> length xs"
    by (rule length_dropWhile_le)
  then have "length (dropWhile (\<lambda>x. x \<noteq> CHR '';'') dev) < length dev"
    by (simp add: cons x)
  moreover have "length dev \<le> length d"
    unfolding dev by (rule length_dropWhile_le)
  ultimately show "((strstr1 dev CHR '';'', parse_stream dev # streams), (Some d, streams))
      \<in> measure (\<lambda>(d, s). case d of None \<Rightarrow> 0 | Some x \<Rightarrow> Suc (length x))"
    by (simp add: strstr1_def Let_def)
qed

declare parse_loop.simps [simp del]

section \<open>The ALSA hook (src/hook/alsa.c)\<close>

subsection \<open>State\<close>

text \<open>
  \<open>glc_t\<close>, the session context every module borrows through a pointer (\<open>alsa.glc\<close>,
  \<open>gl_play->glc\<close>). The two source files read and write its \<open>flags\<close> only.
\<close>

record glc_t =
  flags :: glc_flags_t

text \<open>
  \<open>struct alsa_private_s\<close>. The pointer \<open>glc\<close> is not a field here: the session context
  it points to is a component of the process state below. The five entry-point fields hold
  the addresses \<open>dlsym\<close> returned.
\<close>

record alsa_private_s =
  started :: int
  capture :: int
  audio_hook :: ptr
  capture_stream :: "alsa_capture_stream_s list"
  libasound_handle :: ptr
  snd_pcm_open :: ptr
  snd_pcm_writei :: ptr
  snd_pcm_writen :: ptr
  snd_pcm_mmap_begin :: ptr
  snd_pcm_mmap_commit :: ptr

text \<open>
  The struct \<open>lib\<close> of \<open>lib.h\<close>, which is not among the sources: \<open>alsa.c\<close> uses its
  three resolver pointers.
\<close>

record lib_s =
  dlopen :: ptr
  dlsym :: ptr
  dlvsym :: ptr

text \<open>
  Calls that leave \<open>alsa.c\<close>, in the order they are made. \<open>Real_call name\<close> is a call
  of the genuine library function through the pointer \<open>alsa.name\<close>; the four
  \<open>Audio_hook_alsa_*\<close> calls hand audio to the capture pipeline.
\<close>

datatype hook_call =
    Util_log string
  | Get_real_dlsym
  | Dlopen string
  | Dlsym ptr string
  | Fprintf_stderr string
  | Eh_find_obj string
  | Eh_set_rel string ptr
  | Eh_destroy_obj
  | Audio_hook_init ptr
  | Audio_capture_init ptr string "32 word" "32 word"
  | Audio_hook_close ptr
  | Audio_capture_close ptr
  | Audio_capture_pause ptr
  | Audio_capture_resume ptr
  | Free_stream string
  | Init_glc
  | Real_call string
  | Audio_hook_alsa_i ptr ptr ptr "64 word"
  | Audio_hook_alsa_n ptr ptr ptr "64 word"
  | Audio_hook_alsa_mmap_begin ptr ptr ptr "64 word" "64 word"
  | Audio_hook_alsa_mmap_commit ptr ptr "64 word" "64 word"

text \<open>
  The state of the hooked process as far as \<open>alsa.c\<close> sees it: its two file-scope
  variables \<open>alsa\<close> and \<open>alsa_loaded\<close>, the struct \<open>lib\<close>, the session context, and the
  calls made so far.
\<close>

record hook_process =
  alsa :: alsa_private_s
  alsa_loaded :: int
  lib :: lib_s
  glc :: glc_t
  calls :: "hook_call list"

text \<open>
  What the rest of the process answers. \<open>lib.c\<close>, \<open>lib.h\<close>, the capture modules,
  elfhacks, the C library and libasound are not among the sources, so their results are
  parameters:
  \<^item> \<open>env_getenv\<close>: the environment variables;
  \<^item> \<open>env_get_real_dlsym\<close>: the struct \<open>lib\<close> as \<open>get_real_dlsym ()\<close> leaves it;
  \<^item> \<open>env_INIT_GLC\<close>: the effect of the macro \<open>INIT_GLC\<close> (the one-time set-up of the
    session when it has not run yet) on the process state;
  \<^item> \<open>env_dlopen\<close>, \<open>env_dlsym\<close>: the results of the real resolvers called through
    \<open>lib.dlopen\<close> and \<open>lib.dlsym\<close>;
  \<^item> \<open>env_eh_find_obj\<close>: the return code of \<open>eh_find_obj\<close> for an object name pattern
    (zero when an object matches);
  \<^item> \<open>env_audio_hook_init\<close>, \<open>env_audio_capture_init\<close>: the handles the capture modules
    return;
  \<^item> \<open>real_snd_pcm_*\<close>: the genuine ALSA functions' results. \<open>real_snd_pcm_mmap_begin\<close>
    takes the handle and the requested frames and gives the return code and the values it
    stores through \<open>areas\<close>, \<open>offset\<close> and \<open>frames\<close>.
\<close>

record environment =
  env_getenv :: "string \<Rightarrow> string option"
  env_get_real_dlsym :: lib_s
  env_INIT_GLC :: "hook_process \<Rightarrow> hook_process"
  env_dlopen :: "string \<Rightarrow> ptr"
  env_dlsym :: "ptr \<Rightarrow> string \<Rightarrow> ptr"
  env_eh_find_obj :: "string \<Rightarrow> int"
  env_audio_hook_init :: "ptr \<Rightarrow> ptr"
  env_audio_capture_init :: "ptr \<Rightarrow> string \<Rightarrow> 32 word \<Rightarrow> 32 word \<Rightarrow> ptr"
  real_snd_pcm_open :: "string \<Rightarrow> int"
  real_snd_pcm_writei :: "ptr \<Rightarrow> ptr \<Rightarrow> 64 word \<Rightarrow> 64 word"
  real_snd_pcm_writen :: "ptr \<Rightarrow> ptr \<Rightarrow> 64 word \<Rightarrow> 64 word"
  real_snd_pcm_mmap_begin :: "ptr \<Rightarrow> 64 word \<Rightarrow> int \<times> ptr \<times> 64 word \<times> 64 word"
  real_snd_pcm_mmap_commit :: "ptr \<Rightarrow> 64 word \<Rightarrow> 64 word \<Rightarrow> 64 word"

text \<open>
  How a function ends: it returns a value, or the process ends inside it with an exit
  status (\<open>exit\<close>), or it dereferences a null pointer. Each carries the state reached.
\<close>

datatype ('a, 's) outcome = Returned 'a 's | Exited int 's | Crashed 's

definition call :: "hook_call \<Rightarrow> hook_process \<Rightarrow> hook_process" where
  "call c p = p \<lparr> calls := calls p @ [c] \<rparr>"

subsection \<open>alsa_parse_capture_cfg\<close>

text \<open>
  The loop prepends each stream to \<open>alsa.capture_stream\<close>; \<open>cfg\<close> is never \<open>NULL\<close>
  (\<open>alsa_init\<close> checks \<open>getenv\<close>). The function returns 0.
\<close>

definition alsa_parse_capture_cfg :: "string \<Rightarrow> hook_process \<Rightarrow> int \<times> hook_process" where
  "alsa_parse_capture_cfg cfg p =
     (0, p \<lparr> alsa := (alsa p) \<lparr> capture_stream := parse_loop (Some cfg) (capture_stream (alsa p)) \<rparr> \<rparr>)"

subsection \<open>get_real_alsa\<close>

definition get_real_dlsym :: "environment \<Rightarrow> hook_process \<Rightarrow> hook_process" where
  "get_real_dlsym env p = call Get_real_dlsym (p \<lparr> lib := env_get_real_dlsym env \<rparr>)"

text \<open>The label \<open>err\<close>: a message on \<open>stderr\<close>, then \<open>exit (1)\<close>.\<close>

definition err :: "hook_process \<Rightarrow> (unit, hook_process) outcome" where
  "err p = Exited 1 (call (Fprintf_stderr (''(glc:alsa) can'' @ [CHR 0x27] @ ''t get real alsa'')) p)"

text \<open>\<open>lib.dlsym (alsa.libasound_handle, name)\<close>.\<close>

definition lib_dlsym :: "environment \<Rightarrow> string \<Rightarrow> hook_process \<Rightarrow> ptr \<times> hook_process" where
  "lib_dlsym env name p =
     (env_dlsym env (libasound_handle (alsa p)) name,
      call (Dlsym (libasound_handle (alsa p)) name) p)"

definition get_real_alsa :: "environment \<Rightarrow> hook_process \<Rightarrow> (unit, hook_process) outcome" where
  "get_real_alsa env p0 =
     (let p = (if dlopen (lib p0) = NULL then get_real_dlsym env p0 else p0) in
      if alsa_loaded p \<noteq> 0 then Returned () p
      else
        let p1 = call (Dlopen ''libasound.so'')
                   (p \<lparr> alsa := (alsa p) \<lparr> libasound_handle := env_dlopen env ''libasound.so'' \<rparr> \<rparr>)
        in if libasound_handle (alsa p1) = NULL then err p1
        else
          let (f, q) = lib_dlsym env ''snd_pcm_open'' p1;
              p2 = q \<lparr> alsa := (alsa q) \<lparr> snd_pcm_open := f \<rparr> \<rparr>
          in if snd_pcm_open (alsa p2) = NULL then err p2
          else
            let (f, q) = lib_dlsym env ''snd_pcm_writei'' p2;
                p3 = q \<lparr> alsa := (alsa q) \<lparr> snd_pcm_writei := f \<rparr> \<rparr>
            in if snd_pcm_writei (alsa p3) = NULL then err p3
            else
              let (f, q) = lib_dlsym env ''snd_pcm_writen'' p3;
                  p4 = q \<lparr> alsa := (alsa q) \<lparr> snd_pcm_writen := f \<rparr> \<rparr>
              in if snd_pcm_writen (alsa p4) = NULL then err p4
              else
                let (f, q) = lib_dlsym env ''snd_pcm_mmap_begin'' p4;
                    p5 = q \<lparr> alsa := (alsa q) \<lparr> snd_pcm_mmap_begin := f \<rparr> \<rparr>
                in if snd_pcm_mmap_begin (alsa p5) = NULL then err p5
                else
                  let (f, q) = lib_dlsym env ''snd_pcm_mmap_commit'' p5;
                      p6 = q \<lparr> alsa := (alsa q) \<lparr> snd_pcm_mmap_commit := f \<rparr> \<rparr>
                  in if snd_pcm_mmap_commit (alsa p6) = NULL then err p6
                  else Returned () (p6 \<lparr> alsa_loaded := 1 \<rparr>))"

subsection \<open>alsa_unhook_so\<close>

definition alsa_unhook_so :: "environment \<Rightarrow> string \<Rightarrow> hook_process \<Rightarrow> (int, hook_process) outcome" where
  "alsa_unhook_so env soname p0 =
     (case (if alsa_loaded p0 = 0 then get_real_alsa env p0 else Returned () p0) of
        Exited status p \<Rightarrow> Exited status p
      | Crashed p \<Rightarrow> Crashed p
      | Returned u p \<Rightarrow>
          let ret = env_eh_find_obj env soname;
              p1 = call (Eh_find_obj soname) p
          in if ret \<noteq> 0 then Returned ret p1
             else Returned 0
               (p1 \<lparr> calls := calls p1 @
                  [Eh_set_rel ''snd_pcm_writei'' (snd_pcm_writei (alsa p1)),
                   Eh_set_rel ''snd_pcm_writen'' (snd_pcm_writen (alsa p1)),
                   Eh_set_rel ''snd_pcm_mmap_begin'' (snd_pcm_mmap_begin (alsa p1)),
                   Eh_set_rel ''snd_pcm_mmap_commit'' (snd_pcm_mmap_commit (alsa p1)),
                   Eh_set_rel ''dlsym'' (dlsym (lib p1)),
                   Eh_set_rel ''dlvsym'' (dlvsym (lib p1)),
                   Eh_destroy_obj] \<rparr>))"

subsection \<open>alsa_init and alsa_start\<close>

text \<open>
  \<open>atoi\<close>: white space, an optional sign, decimal digits; 0 when no digit follows. The
  result is an \<open>int\<close> of 32 bits (a value that does not fit is undefined in ISO C and is
  reduced modulo \<open>2 ^ 32\<close> here).
\<close>

definition atoi :: "string \<Rightarrow> int" where
  "atoi s =
     (let s1 = dropWhile isspace s;
          neg = (s1 \<noteq> [] \<and> hd s1 = CHR ''-'');
          s2 = (if s1 \<noteq> [] \<and> (hd s1 = CHR ''-'' \<or> hd s1 = CHR ''+'') then tl s1 else s1);
          n = decimal (takeWhile isdigit s2)
      in sint ((if neg then - of_nat n else of_nat n) :: 32 word))"

definition alsa_init :: "environment \<Rightarrow> hook_process \<Rightarrow> (int, hook_process) outcome" where
  "alsa_init env p0 =
     (let p1 = call (Util_log ''initializing'')
                 (p0 \<lparr> alsa := (alsa p0) \<lparr> started := 0, capture_stream := [] \<rparr> \<rparr>);
          p2 = p1 \<lparr> alsa := (alsa p1)
                 \<lparr> capture := (case env_getenv env ''GLC_AUDIO'' of Some v \<Rightarrow> atoi v | None \<Rightarrow> 1) \<rparr> \<rparr>;
          p3 = (case env_getenv env ''GLC_AUDIO_SKIP'' of
                  Some v \<Rightarrow>
                    if atoi v \<noteq> 0
                    then p2 \<lparr> glc := (glc p2) \<lparr> flags := flags (glc p2) OR GLC_AUDIO_ALLOW_SKIP \<rparr> \<rparr>
                    else p2
                | None \<Rightarrow> p2);
          p4 = (case env_getenv env ''GLC_AUDIO_RECORD'' of
                  Some cfg \<Rightarrow> snd (alsa_parse_capture_cfg cfg p3)
                | None \<Rightarrow> p3)
      in case get_real_alsa env p4 of
           Exited status p \<Rightarrow> Exited status p
         | Crashed p \<Rightarrow> Crashed p
         | Returned u p \<Rightarrow> Returned 0 p)"

text \<open>The loop of \<open>alsa_start\<close> over the stream list, head first.\<close>

fun start_streams ::
  "environment \<Rightarrow> ptr \<Rightarrow> alsa_capture_stream_s list \<Rightarrow>
     alsa_capture_stream_s list \<times> hook_call list" where
  "start_streams env buffer [] = ([], [])"
| "start_streams env buffer (s # ss) =
     (let s' = s \<lparr> alsa_capture_stream_s.capture :=
                   env_audio_capture_init env buffer (c_str (device s)) (rate s) (channels s) \<rparr>;
          (ss', cs) = start_streams env buffer ss
      in (s' # ss', Audio_capture_init buffer (c_str (device s)) (rate s) (channels s) # cs))"

definition alsa_start :: "environment \<Rightarrow> ptr \<Rightarrow> hook_process \<Rightarrow> (int, hook_process) outcome" where
  "alsa_start env buffer p0 =
     (if started (alsa p0) \<noteq> 0 then Returned EINVAL p0
      else
        case alsa_unhook_so env ''*libasound.so*'' p0 of
          Exited status p \<Rightarrow> Exited status p
        | Crashed p \<Rightarrow> Crashed p
        | Returned r p \<Rightarrow>
            let p1 = (if capture (alsa p) \<noteq> 0
                      then call (Audio_hook_init buffer)
                             (p \<lparr> alsa := (alsa p) \<lparr> audio_hook := env_audio_hook_init env buffer \<rparr> \<rparr>)
                      else p)
            in if capture (alsa p) \<noteq> 0 \<and> audio_hook (alsa p1) = NULL then Returned EAGAIN p1
               else
                 let (ss, cs) = start_streams env buffer (capture_stream (alsa p1))
                 in Returned 0
                      (p1 \<lparr> alsa := (alsa p1) \<lparr> capture_stream := ss, started := 1 \<rparr>,
                            calls := calls p1 @ cs \<rparr>))"

subsection \<open>alsa_close, alsa_pause and alsa_resume\<close>

text \<open>
  The three loops over the stream list. \<open>Free_stream d\<close> stands for the two calls of
  \<open>free\<close> that release a stream whose device name is \<open>d\<close>.
\<close>

fun close_streams :: "alsa_capture_stream_s list \<Rightarrow> hook_call list" where
  "close_streams [] = []"
| "close_streams (del # ss) =
     (if alsa_capture_stream_s.capture del \<noteq> NULL
      then [Audio_capture_close (alsa_capture_stream_s.capture del)] else [])
     @ Free_stream (c_str (device del)) # close_streams ss"

fun pause_streams :: "alsa_capture_stream_s list \<Rightarrow> hook_call list" where
  "pause_streams [] = []"
| "pause_streams (s # ss) =
     (if alsa_capture_stream_s.capture s \<noteq> NULL
      then [Audio_capture_pause (alsa_capture_stream_s.capture s)] else [])
     @ pause_streams ss"

fun resume_streams :: "alsa_capture_stream_s list \<Rightarrow> hook_call list" where
  "resume_streams [] = []"
| "resume_streams (s # ss) =
     (if alsa_capture_stream_s.capture s \<noteq> NULL
      then [Audio_capture_resume (alsa_capture_stream_s.capture s)] else [])
     @ resume_streams ss"

definition alsa_close :: "hook_process \<Rightarrow> int \<times> hook_process" where
  "alsa_close p =
     (if started (alsa p) = 0 then (0, p)
      else
        let p1 = call (Util_log ''closing'') p;
            p2 = (if capture (alsa p1) \<noteq> 0
                  then call (Audio_hook_close (audio_hook (alsa p1))) p1 else p1)
        in (0, p2 \<lparr> alsa := (alsa p2) \<lparr> capture_stream := [] \<rparr>,
                    calls := calls p2 @ close_streams (capture_stream (alsa p2)) \<rparr>))"

definition alsa_pause :: "hook_process \<Rightarrow> int \<times> hook_process" where
  "alsa_pause p = (0, p \<lparr> calls := calls p @ pause_streams (capture_stream (alsa p)) \<rparr>)"

definition alsa_resume :: "hook_process \<Rightarrow> int \<times> hook_process" where
  "alsa_resume p = (0, p \<lparr> calls := calls p @ resume_streams (capture_stream (alsa p)) \<rparr>)"

subsection \<open>The intercepted entry points\<close>

text \<open>
  \<open>snd_pcm_writei\<close> and its siblings, exported under the library's names, forward to the
  \<open>__alsa_snd_pcm_*\<close> functions modelled here (named without the leading underscores).
  \<open>ret > 0\<close> compares a \<open>snd_pcm_sframes_t\<close>, a signed 64-bit value.
\<close>

definition INIT_GLC :: "environment \<Rightarrow> hook_process \<Rightarrow> hook_process" where
  "INIT_GLC env p = call Init_glc (env_INIT_GLC env p)"

definition alsa_snd_pcm_open ::
  "environment \<Rightarrow> string \<Rightarrow> hook_process \<Rightarrow> int \<times> hook_process" where
  "alsa_snd_pcm_open env name p0 =
     (let p = INIT_GLC env p0
      in (real_snd_pcm_open env name, call (Real_call ''snd_pcm_open'') p))"

definition alsa_snd_pcm_writei ::
  "environment \<Rightarrow> ptr \<Rightarrow> ptr \<Rightarrow> 64 word \<Rightarrow> hook_process \<Rightarrow> 64 word \<times> hook_process" where
  "alsa_snd_pcm_writei env pcm buffer size' p0 =
     (let p = INIT_GLC env p0;
          ret = real_snd_pcm_writei env pcm buffer size';
          p1 = call (Real_call ''snd_pcm_writei'') p;
          p2 = (if capture (alsa p1) \<noteq> 0 \<and> 0 < sint ret \<and> flags (glc p1) AND GLC_CAPTURE \<noteq> 0
                then call (Audio_hook_alsa_i (audio_hook (alsa p1)) pcm buffer ret) p1
                else p1)
      in (ret, p2))"

definition alsa_snd_pcm_writen ::
  "environment \<Rightarrow> ptr \<Rightarrow> ptr \<Rightarrow> 64 word \<Rightarrow> hook_process \<Rightarrow> 64 word \<times> hook_process" where
  "alsa_snd_pcm_writen env pcm bufs size' p0 =
     (let p = INIT_GLC env p0;
          ret = real_snd_pcm_writen env pcm bufs size';
          p1 = call (Real_call ''snd_pcm_writen'') p;
          p2 = (if capture (alsa p1) \<noteq> 0 \<and> 0 < sint ret \<and> flags (glc p1) AND GLC_CAPTURE \<noteq> 0
                then call (Audio_hook_alsa_n (audio_hook (alsa p1)) pcm bufs ret) p1
                else p1)
      in (ret, p2))"

definition alsa_snd_pcm_mmap_begin ::
  "environment \<Rightarrow> ptr \<Rightarrow> 64 word \<Rightarrow> hook_process \<Rightarrow> int \<times> hook_process" where
  "alsa_snd_pcm_mmap_begin env pcm frames p0 =
     (let p = INIT_GLC env p0;
          (ret, areas, offset, frames') = real_snd_pcm_mmap_begin env pcm frames;
          p1 = call (Real_call ''snd_pcm_mmap_begin'') p;
          p2 = (if capture (alsa p1) \<noteq> 0 \<and> 0 \<le> ret \<and> flags (glc p1) AND GLC_CAPTURE \<noteq> 0
                then call (Audio_hook_alsa_mmap_begin (audio_hook (alsa p1)) pcm areas offset frames') p1
                else p1)
      in (ret, p2))"

text \<open>
  In \<open>__alsa_snd_pcm_mmap_commit\<close> the capture call stands before the real call, and
  \<open>ret\<close> is a \<open>snd_pcm_uframes_t\<close>: the conversions to it and back to the return type
  keep the 64 bits.
\<close>

definition alsa_snd_pcm_mmap_commit ::
  "environment \<Rightarrow> ptr \<Rightarrow> 64 word \<Rightarrow> 64 word \<Rightarrow> hook_process \<Rightarrow> 64 word \<times> hook_process" where
  "alsa_snd_pcm_mmap_commit env pcm offset frames p0 =
     (let p = INIT_GLC env p0;
          p1 = (if capture (alsa p) \<noteq> 0 \<and> flags (glc p) AND GLC_CAPTURE \<noteq> 0
                then call (Audio_hook_alsa_mmap_commit (audio_hook (alsa p)) pcm offset frames) p
                else p);
          ret = real_snd_pcm_mmap_commit env pcm offset frames;
          p2 = call (Real_call ''snd_pcm_mmap_commit'') p1;
          p3 = (if ret \<noteq> frames then call (Util_log ''frames=%lu, ret=%ld'') p2 else p2)
      in (ret, p3))"

section \<open>OpenGL playback (src/stream/gl_play.c)\<close>

subsection \<open>Messages and state\<close>

text \<open>\<open>glc_ctx_message_t\<close> and \<open>glc_picture_header_t\<close> of \<open>glc.h\<close>.\<close>

record glc_ctx_message_t =
  flags :: glc_flags_t
  ctx :: glc_ctx_i
  w :: "32 word"
  h :: "32 word"

record glc_picture_header_t =
  timestamp :: glc_utime_t
  ctx :: glc_ctx_i

text \<open>
  What the callback finds in \<open>state->header.type\<close> and \<open>state->read_data\<close>: a context
  message (type \<open>GLC_MESSAGE_CTX\<close>), a picture header followed by the pixel data (type
  \<open>GLC_MESSAGE_PICTURE\<close>), or a message of another type.
\<close>

datatype glc_message =
    Ctx_message glc_ctx_message_t
  | Picture_message glc_picture_header_t "8 word list"
  | Other_message "8 word"

text \<open>\<open>glc_thread_state_t\<close> (\<open>thread.h\<close>): the control flags and the current message.\<close>

record glc_thread_state_t =
  flags :: "32 word"
  message :: glc_message

text \<open>
  \<open>struct gl_play_private_s\<close>. The pointers \<open>glc\<close>, \<open>dpy\<close> and \<open>finished\<close> and the
  thread descriptor are set once by \<open>gl_play_init\<close> and are not fields here; \<open>format\<close>,
  \<open>last\<close> and \<open>cancel\<close> are never read or written. \<open>fps\<close> is read by the callback and
  written nowhere in the file.
\<close>

record gl_play_private_s =
  ctx_i :: glc_ctx_i
  w :: "32 word"
  h :: "32 word"
  fps :: glc_utime_t
  drawable :: ptr
  ctx :: ptr
  name :: string
  created :: int
  texture :: "32 word"
  delete_atom :: nat
  wm_proto_atom :: nat

text \<open>
  The X events the callback distinguishes. A key event carries the key symbol
  \<open>XLookupKeysym\<close> gives for it, a client message its \<open>message_type\<close> and
  \<open>data.l[0]\<close>, a configure event its width and height as \<open>unsigned int\<close>.
\<close>

datatype XEvent =
    KeyPress int
  | KeyRelease int
  | DestroyNotify
  | ClientMessage nat nat
  | ConfigureNotify "32 word" "32 word"
  | Other_event

definition XK_Right :: int where "XK_Right = 0xff53"
definition XK_Escape :: int where "XK_Escape = 0xff1b"

text \<open>
  Calls that leave \<open>gl_play.c\<close>, in order. \<open>Call_draw_picture texture w h data\<close> stands
  for the calls of \<open>gl_play_draw_picture\<close> (the texture upload of the frame and the quad
  that shows it), \<open>Call_viewport\<close> for \<open>glViewport\<close> and the matrix set-up,
  \<open>Call_window_update\<close> for the window calls of \<open>gl_play_update_ctx\<close> from
  \<open>XUnmapWindow\<close> to \<open>glXMakeCurrent\<close>. \<open>Call_usleep\<close> carries the argument as
  \<open>usleep\<close> receives it, a \<open>useconds_t\<close> of 32 bits.
\<close>

datatype play_call =
    Call_util_timediff int
  | Call_viewport "32 word" "32 word"
  | Call_glGenTextures
  | Call_draw_picture "32 word" "32 word" "32 word" "8 word list"
  | Call_util_timestamp
  | Call_usleep "32 word"
  | Call_glXSwapBuffers ptr
  | Call_glXChooseVisual
  | Call_XCreateWindow "32 word" "32 word"
  | Call_glXCreateContext
  | Call_XFree
  | Call_XSetWMProtocols
  | Call_window_update string "32 word" "32 word"
  | Stderr_broken_ctx glc_ctx_i
  | Stderr_unsupported_format glc_ctx_i
  | Stderr_uninitialized_ctx glc_ctx_i

text \<open>
  The playback worker: its private struct, the session context \<open>gl_play->glc\<close>, the
  thread state passed to the callback, and the calls made so far.
\<close>

record play_worker =
  gl_play :: gl_play_private_s
  play_glc :: glc_t
  state :: glc_thread_state_t
  play_calls :: "play_call list"

text \<open>
  What the callback is given from outside the file:
  \<^item> \<open>GLC_THREAD_STOP\<close>: the flag constant of \<open>thread.h\<close>, which is not among the
    sources;
  \<^item> \<open>pending\<close>: the events \<open>XPending\<close> and \<open>XNextEvent\<close> deliver during the call;
  \<^item> \<open>util_timestamp\<close>: the playback clock as \<open>util_timestamp\<close> reads it;
  \<^item> the results of \<open>glXChooseVisual\<close>, \<open>XCreateWindow\<close>, \<open>glXCreateContext\<close>,
    \<open>XInternAtom\<close> and \<open>glGenTextures\<close>.
\<close>

record play_environment =
  GLC_THREAD_STOP :: "32 word"
  pending :: "XEvent list"
  util_timestamp :: glc_utime_t
  glXChooseVisual :: ptr
  XCreateWindow :: ptr
  glXCreateContext :: ptr
  XInternAtom :: "string \<Rightarrow> nat"
  glGenTextures :: "32 word"

definition play_call :: "play_call \<Rightarrow> play_worker \<Rightarrow> play_worker" where
  "play_call c k = k \<lparr> play_calls := play_calls k @ [c] \<rparr>"

text \<open>The struct as \<open>gl_play_init\<close> leaves it: zeroed, then \<open>ctx_i\<close> set.\<close>

definition gl_play_init :: "glc_ctx_i \<Rightarrow> gl_play_private_s" where
  "gl_play_init c =
     \<lparr> ctx_i = c, w = 0, h = 0, fps = 0, drawable = 0, ctx = NULL, name = [], created = 0,
       texture = 0, delete_atom = 0, wm_proto_atom = 0 \<rparr>"

subsection \<open>Context set-up\<close>

definition gl_play_update_viewport ::
  "play_environment \<Rightarrow> 32 word \<Rightarrow> 32 word \<Rightarrow> play_worker \<Rightarrow> int \<times> play_worker" where
  "gl_play_update_viewport env w' h' k =
     (let k1 = play_call (Call_viewport w' h') k;
          k2 = (if texture (gl_play k1) = 0
                then play_call Call_glGenTextures
                       (k1 \<lparr> gl_play := (gl_play k1) \<lparr> texture := glGenTextures env \<rparr> \<rparr>)
                else k1)
      in (0, k2))"

text \<open>The conversion \<open>%d\<close> of \<open>snprintf\<close>.\<close>

fun digits :: "nat \<Rightarrow> string" where
  "digits n = (if n < 10 then [char_of (48 + n)] else digits (n div 10) @ [char_of (48 + n mod 10)])"

definition print_d :: "int \<Rightarrow> string" where
  "print_d i = (if i < 0 then CHR ''-'' # digits (nat (- i)) else digits (nat i))"

definition gl_play_update_ctx :: "play_environment \<Rightarrow> play_worker \<Rightarrow> int \<times> play_worker" where
  "gl_play_update_ctx env k =
     (if created (gl_play k) = 0 then (EINVAL, k)
      else
        let k1 = k \<lparr> gl_play := (gl_play k)
                   \<lparr> name := take 98 (''glc-play (ctx '' @ print_d (sint (ctx_i (gl_play k))) @ '')'') \<rparr> \<rparr>;
            k2 = play_call (Call_window_update (name (gl_play k1)) (w (gl_play k1)) (h (gl_play k1))) k1
        in gl_play_update_viewport env (w (gl_play k2)) (h (gl_play k2)) k2)"

text \<open>
  \<open>gl_play_create_ctx\<close> dereferences the result of \<open>glXChooseVisual\<close> unchecked; when
  \<open>glXCreateContext\<close> fails it returns \<open>EAGAIN\<close> with the window already created and
  \<open>created\<close> still 0.
\<close>

definition gl_play_create_ctx ::
  "play_environment \<Rightarrow> play_worker \<Rightarrow> (int, play_worker) outcome" where
  "gl_play_create_ctx env k =
     (let k1 = play_call Call_glXChooseVisual k in
      if glXChooseVisual env = NULL then Crashed k1
      else
        let k2 = play_call (Call_XCreateWindow (w (gl_play k1)) (h (gl_play k1)))
                   (k1 \<lparr> gl_play := (gl_play k1) \<lparr> drawable := XCreateWindow env \<rparr> \<rparr>);
            k3 = play_call Call_glXCreateContext
                   (k2 \<lparr> gl_play := (gl_play k2) \<lparr> ctx := glXCreateContext env \<rparr> \<rparr>)
        in if gl_play_private_s.ctx (gl_play k3) = NULL then Returned EAGAIN k3
           else
             let k4 = play_call Call_XFree (k3 \<lparr> gl_play := (gl_play k3) \<lparr> created := 1 \<rparr> \<rparr>);
                 k5 = play_call Call_XSetWMProtocols
                        (k4 \<lparr> gl_play := (gl_play k4)
                           \<lparr> delete_atom := XInternAtom env ''WM_DELETE_WINDOW'',
                             wm_proto_atom := XInternAtom env ''WM_PROTOCOLS'' \<rparr> \<rparr>);
                 (r, k6) = gl_play_update_ctx env k5
             in Returned r k6)"

subsection \<open>X events\<close>

definition handle_xevent :: "play_environment \<Rightarrow> play_worker \<Rightarrow> XEvent \<Rightarrow> play_worker" where
  "handle_xevent env k e =
     (case e of
        KeyPress code \<Rightarrow>
          if code = XK_Right then play_call (Call_util_timediff (- 100000)) k else k
      | KeyRelease code \<Rightarrow>
          if code = XK_Escape
          then k \<lparr> play_glc := (play_glc k) \<lparr> glc_t.flags := glc_t.flags (play_glc k) OR GLC_CANCEL \<rparr> \<rparr>
          else k
      | DestroyNotify \<Rightarrow>
          k \<lparr> state := (state k) \<lparr> flags := flags (state k) OR GLC_THREAD_STOP env \<rparr> \<rparr>
      | ClientMessage message_type data0 \<Rightarrow>
          if message_type = wm_proto_atom (gl_play k) \<and> data0 = delete_atom (gl_play k)
          then k \<lparr> state := (state k) \<lparr> flags := flags (state k) OR GLC_THREAD_STOP env \<rparr> \<rparr>
          else k
      | ConfigureNotify width height \<Rightarrow> snd (gl_play_update_viewport env width height k)
      | Other_event \<Rightarrow> k)"

text \<open>\<open>gl_handle_xevents\<close>: every pending event in turn.\<close>

definition gl_handle_xevents :: "play_environment \<Rightarrow> play_worker \<Rightarrow> play_worker" where
  "gl_handle_xevents env k = foldl (handle_xevent env) k (pending env)"

subsection \<open>The read callback\<close>

definition gl_play_draw_picture :: "8 word list \<Rightarrow> play_worker \<Rightarrow> play_worker" where
  "gl_play_draw_picture from k =
     play_call (Call_draw_picture (texture (gl_play k)) (w (gl_play k)) (h (gl_play k)) from) k"

text \<open>
  The comparisons of \<open>glc_utime_t\<close> values are unsigned and \<open>timestamp + fps\<close> wraps at
  \<open>2 ^ 64\<close>; the argument of \<open>usleep\<close> is converted to its 32-bit parameter type.
\<close>

definition gl_play_read_callback ::
  "play_environment \<Rightarrow> play_worker \<Rightarrow> (int, play_worker) outcome" where
  "gl_play_read_callback env k0 =
     (let k = gl_handle_xevents env k0 in
      if flags (state k) AND GLC_THREAD_STOP env \<noteq> 0 then Returned 0 k
      else
        case message (state k) of
          Ctx_message ctx_msg \<Rightarrow>
            if glc_ctx_message_t.ctx ctx_msg \<noteq> ctx_i (gl_play k) then Returned 0 k
            else
              let k1 = k \<lparr> gl_play := (gl_play k)
                         \<lparr> w := glc_ctx_message_t.w ctx_msg, h := glc_ctx_message_t.h ctx_msg \<rparr> \<rparr>
              in if glc_ctx_message_t.flags ctx_msg AND GLC_CTX_BGR \<noteq> 0
                    \<and> glc_ctx_message_t.flags ctx_msg AND GLC_CTX_CREATE \<noteq> 0
                 then (case gl_play_create_ctx env k1 of
                         Returned r k2 \<Rightarrow> Returned 0 k2
                       | Exited status k2 \<Rightarrow> Exited status k2
                       | Crashed k2 \<Rightarrow> Crashed k2)
                 else if glc_ctx_message_t.flags ctx_msg AND GLC_CTX_BGR \<noteq> 0
                    \<and> glc_ctx_message_t.flags ctx_msg AND GLC_CTX_UPDATE \<noteq> 0
                 then (let (r, k2) = gl_play_update_ctx env k1
                       in if r \<noteq> 0
                          then Returned EINVAL
                                 (play_call (Stderr_broken_ctx (glc_ctx_message_t.ctx ctx_msg)) k2)
                          else Returned 0 k2)
                 else Returned EINVAL
                        (play_call (Stderr_unsupported_format (glc_ctx_message_t.ctx ctx_msg)) k1)
        | Picture_message pic_hdr from \<Rightarrow>
            if glc_picture_header_t.ctx pic_hdr \<noteq> ctx_i (gl_play k) then Returned 0 k
            else if created (gl_play k) = 0
            then Returned EINVAL
                   (play_call (Stderr_uninitialized_ctx (glc_picture_header_t.ctx pic_hdr)) k)
            else
              let k1 = gl_play_draw_picture from k;
                  time = util_timestamp env;
                  k2 = play_call Call_util_timestamp k1
              in if time < timestamp pic_hdr
                 then Returned 0
                        (play_call (Call_glXSwapBuffers (drawable (gl_play k2)))
                           (play_call (Call_usleep (ucast (timestamp pic_hdr - time))) k2))
                 else if timestamp pic_hdr + fps (gl_play k2) < time then Returned 0 k2
                 else Returned 0 (play_call (Call_glXSwapBuffers (drawable (gl_play k2))) k2)
        | Other_message t \<Rightarrow> Returned 0 k)"

section \<open>Properties of runs\<close>

subsection \<open>The hooked process\<close>

text \<open>
  The calls that hand audio to the capture pipeline, the calls of the genuine library,
  the symbol and library look-ups, and the relocation patches.
\<close>

fun is_emission :: "hook_call \<Rightarrow> bool" where
  "is_emission (Audio_hook_alsa_i a pcm buffer n) = True"
| "is_emission (Audio_hook_alsa_n a pcm bufs n) = True"
| "is_emission (Audio_hook_alsa_mmap_begin a pcm areas offset n) = True"
| "is_emission (Audio_hook_alsa_mmap_commit a pcm offset n) = True"
| "is_emission c = False"

fun is_real_call :: "hook_call \<Rightarrow> bool" where
  "is_real_call (Real_call n) = True"
| "is_real_call c = False"

fun is_lookup :: "hook_call \<Rightarrow> bool" where
  "is_lookup (Dlopen n) = True"
| "is_lookup (Dlsym a n) = True"
| "is_lookup c = False"

fun is_patch :: "hook_call \<Rightarrow> bool" where
  "is_patch (Eh_set_rel n a) = True"
| "is_patch c = False"

text \<open>The calls made between an earlier state \<open>p\<close> and a later state \<open>q\<close>.\<close>

definition calls_since :: "hook_process \<Rightarrow> hook_process \<Rightarrow> hook_call list" where
  "calls_since p q = drop (length (calls p)) (calls q)"

text \<open>In a list of calls, no emission stands before the first real call.\<close>

fun emission_after_real :: "hook_call list \<Rightarrow> bool" where
  "emission_after_real [] = True"
| "emission_after_real (c # cs) =
     (if is_real_call c then True else \<not> is_emission c \<and> emission_after_real cs)"

text \<open>
  An entry point that went from \<open>p\<close> (the state once \<open>INIT_GLC\<close> has run) to \<open>q\<close> and
  whose real call succeeded or not: if it emitted, then capture was enabled, the
  \<open>GLC_CAPTURE\<close> flag was set, the real call had succeeded, and the emission came after
  the real call.
\<close>

definition emits_only_after_success :: "hook_process \<Rightarrow> bool \<Rightarrow> hook_process \<Rightarrow> bool" where
  "emits_only_after_success p succeeded q =
     (list_ex is_emission (calls_since p q) \<longrightarrow>
        capture (alsa p) \<noteq> 0 \<and> glc_t.flags (glc p) AND GLC_CAPTURE \<noteq> 0 \<and> succeeded
        \<and> emission_after_real (calls_since p q))"

definition lookups :: "hook_process \<Rightarrow> hook_call list" where
  "lookups p = filter is_lookup (calls p)"

text \<open>The look-ups of one complete resolution, in order.\<close>

definition all_lookups :: "environment \<Rightarrow> hook_call list" where
  "all_lookups env =
     [Dlopen ''libasound.so'',
      Dlsym (env_dlopen env ''libasound.so'') ''snd_pcm_open'',
      Dlsym (env_dlopen env ''libasound.so'') ''snd_pcm_writei'',
      Dlsym (env_dlopen env ''libasound.so'') ''snd_pcm_writen'',
      Dlsym (env_dlopen env ''libasound.so'') ''snd_pcm_mmap_begin'',
      Dlsym (env_dlopen env ''libasound.so'') ''snd_pcm_mmap_commit'']"

text \<open>The library and every required symbol resolve.\<close>

definition resolvable :: "environment \<Rightarrow> bool" where
  "resolvable env =
     (env_dlopen env ''libasound.so'' \<noteq> NULL
      \<and> list_all (\<lambda>n. env_dlsym env (env_dlopen env ''libasound.so'') n \<noteq> NULL)
           [''snd_pcm_open'', ''snd_pcm_writei'', ''snd_pcm_writen'', ''snd_pcm_mmap_begin'',
            ''snd_pcm_mmap_commit''])"

text \<open>The genuine entry points are all in place.\<close>

definition resolved :: "hook_process \<Rightarrow> bool" where
  "resolved p =
     (libasound_handle (alsa p) \<noteq> NULL \<and> snd_pcm_open (alsa p) \<noteq> NULL
      \<and> snd_pcm_writei (alsa p) \<noteq> NULL \<and> snd_pcm_writen (alsa p) \<noteq> NULL
      \<and> snd_pcm_mmap_begin (alsa p) \<noteq> NULL \<and> snd_pcm_mmap_commit (alsa p) \<noteq> NULL)"

text \<open>The relocations \<open>alsa_unhook_so\<close> rebinds in a matching object, from state \<open>q\<close>.\<close>

definition patches :: "hook_process \<Rightarrow> hook_call list" where
  "patches q =
     [Eh_set_rel ''snd_pcm_writei'' (snd_pcm_writei (alsa q)),
      Eh_set_rel ''snd_pcm_writen'' (snd_pcm_writen (alsa q)),
      Eh_set_rel ''snd_pcm_mmap_begin'' (snd_pcm_mmap_begin (alsa q)),
      Eh_set_rel ''snd_pcm_mmap_commit'' (snd_pcm_mmap_commit (alsa q)),
      Eh_set_rel ''dlsym'' (dlsym (lib q)),
      Eh_set_rel ''dlvsym'' (dlvsym (lib q))]"

text \<open>
  The struct holds what the resolvers returned: the handle \<open>lib.dlopen\<close> gave for
  \<open>libasound.so\<close>, and for each entry point the address \<open>lib.dlsym\<close> gave for its
  name in that library.
\<close>

definition cached :: "environment \<Rightarrow> hook_process \<Rightarrow> bool" where
  "cached env p =
     (libasound_handle (alsa p) = env_dlopen env ''libasound.so''
      \<and> snd_pcm_open (alsa p) = env_dlsym env (env_dlopen env ''libasound.so'') ''snd_pcm_open''
      \<and> snd_pcm_writei (alsa p) = env_dlsym env (env_dlopen env ''libasound.so'') ''snd_pcm_writei''
      \<and> snd_pcm_writen (alsa p) = env_dlsym env (env_dlopen env ''libasound.so'') ''snd_pcm_writen''
      \<and> snd_pcm_mmap_begin (alsa p)
          = env_dlsym env (env_dlopen env ''libasound.so'') ''snd_pcm_mmap_begin''
      \<and> snd_pcm_mmap_commit (alsa p)
          = env_dlsym env (env_dlopen env ''libasound.so'') ''snd_pcm_mmap_commit'')"

text \<open>
  The invariant of a process: while \<open>alsa_loaded\<close> is 0 no look-up has been made, and
  once it is set the look-ups made are those of one resolution and the struct holds their
  results, none of them \<open>NULL\<close>. An outcome respects it when a return re-establishes it
  and an exit has status 1, leaves \<open>alsa_loaded\<close> at 0 and has made an initial part of
  one resolution.
\<close>

definition resolved_once :: "environment \<Rightarrow> hook_process \<Rightarrow> bool" where
  "resolved_once env p =
     (if alsa_loaded p = 0 then lookups p = []
      else lookups p = all_lookups env \<and> cached env p \<and> resolved p)"

definition outcome_ok :: "environment \<Rightarrow> ('a, hook_process) outcome \<Rightarrow> bool" where
  "outcome_ok env r =
     (case r of
        Returned v q \<Rightarrow> resolved_once env q
      | Exited n q \<Rightarrow>
          n = 1 \<and> alsa_loaded q = 0 \<and> (\<exists>m. lookups q = take m (all_lookups env))
      | Crashed q \<Rightarrow> False)"

text \<open>
  The life of a process as a sequence of calls of the functions of \<open>alsa.c\<close> other
  than the intercepted entry points (whose set-up macro \<open>INIT_GLC\<close> reaches
  \<open>get_real_alsa\<close> through \<open>alsa_init\<close>); it ends early when one of them ends the
  process.
\<close>

datatype api_call =
    Call_alsa_init
  | Call_alsa_start ptr
  | Call_alsa_unhook_so string
  | Call_get_real_alsa
  | Call_alsa_close
  | Call_alsa_pause
  | Call_alsa_resume

definition forget :: "('a, 's) outcome \<Rightarrow> (unit, 's) outcome" where
  "forget r = (case r of Returned v s \<Rightarrow> Returned () s | Exited n s \<Rightarrow> Exited n s | Crashed s \<Rightarrow> Crashed s)"

definition final_state :: "('a, 's) outcome \<Rightarrow> 's" where
  "final_state r = (case r of Returned v s \<Rightarrow> s | Exited n s \<Rightarrow> s | Crashed s \<Rightarrow> s)"

fun api_step :: "environment \<Rightarrow> api_call \<Rightarrow> hook_process \<Rightarrow> (unit, hook_process) outcome" where
  "api_step env Call_alsa_init p = forget (alsa_init env p)"
| "api_step env (Call_alsa_start buffer) p = forget (alsa_start env buffer p)"
| "api_step env (Call_alsa_unhook_so soname) p = forget (alsa_unhook_so env soname p)"
| "api_step env Call_get_real_alsa p = get_real_alsa env p"
| "api_step env Call_alsa_close p = Returned () (snd (alsa_close p))"
| "api_step env Call_alsa_pause p = Returned () (snd (alsa_pause p))"
| "api_step env Call_alsa_resume p = Returned () (snd (alsa_resume p))"

fun process_run :: "environment \<Rightarrow> api_call list \<Rightarrow> hook_process \<Rightarrow> (unit, hook_process) outcome" where
  "process_run env [] p = Returned () p"
| "process_run env (c # cs) p =
     (case api_step env c p of
        Returned u q \<Rightarrow> process_run env cs q
      | Exited n q \<Rightarrow> Exited n q
      | Crashed q \<Rightarrow> Crashed q)"

text \<open>Example inputs: a process before and after start-up, and two environments.\<close>

definition alsa_zero :: alsa_private_s where
  "alsa_zero =
     \<lparr> started = 0, capture = 0, audio_hook = NULL, capture_stream = [], libasound_handle = NULL,
       snd_pcm_open = NULL, snd_pcm_writei = NULL, snd_pcm_writen = NULL,
       snd_pcm_mmap_begin = NULL, snd_pcm_mmap_commit = NULL \<rparr>"

definition fresh_process :: hook_process where
  "fresh_process =
     \<lparr> alsa = alsa_zero, alsa_loaded = 0, lib = \<lparr> dlopen = NULL, dlsym = NULL, dlvsym = NULL \<rparr>,
       glc = \<lparr> glc_t.flags = 0 \<rparr>, calls = [] \<rparr>"

definition capturing_process :: hook_process where
  "capturing_process =
     \<lparr> alsa = alsa_zero \<lparr> started := 1, capture := 1, audio_hook := 7, libasound_handle := 3,
           snd_pcm_open := 10, snd_pcm_writei := 11, snd_pcm_writen := 12,
           snd_pcm_mmap_begin := 13, snd_pcm_mmap_commit := 14 \<rparr>,
       alsa_loaded = 1, lib = \<lparr> dlopen = 20, dlsym = 21, dlvsym = 22 \<rparr>,
       glc = \<lparr> glc_t.flags = GLC_CAPTURE \<rparr>, calls = [] \<rparr>"

text \<open>
  In \<open>good_environment\<close> everything resolves, no object matches a pattern other than
  \<open>*libasound.so*\<close>, and the real calls succeed; \<open>bad_environment\<close> differs in that
  \<open>libasound.so\<close> cannot be opened and the real calls fail with \<open>-EPIPE\<close>.
\<close>

definition good_environment :: environment where
  "good_environment =
     \<lparr> env_getenv = (\<lambda>n. None),
       env_get_real_dlsym = \<lparr> dlopen = 20, dlsym = 21, dlvsym = 22 \<rparr>,
       env_INIT_GLC = (\<lambda>p. p),
       env_dlopen = (\<lambda>n. 3),
       env_dlsym = (\<lambda>a n. 10 + length n),
       env_eh_find_obj = (\<lambda>n. if n = ''*libasound.so*'' then 0 else 1),
       env_audio_hook_init = (\<lambda>b. 7),
       env_audio_capture_init = (\<lambda>b d r c. 8),
       real_snd_pcm_open = (\<lambda>n. 0),
       real_snd_pcm_writei = (\<lambda>pcm b n. n),
       real_snd_pcm_writen = (\<lambda>pcm b n. n),
       real_snd_pcm_mmap_begin = (\<lambda>pcm n. (0, 5, 0, n)),
       real_snd_pcm_mmap_commit = (\<lambda>pcm off n. n) \<rparr>"

definition bad_environment :: environment where
  "bad_environment =
     good_environment
       \<lparr> env_dlopen := (\<lambda>n. NULL),
         real_snd_pcm_writei := (\<lambda>pcm b n. - 32),
         real_snd_pcm_writen := (\<lambda>pcm b n. - 32),
         real_snd_pcm_mmap_begin := (\<lambda>pcm n. (- 32, 0, 0, 0)),
         real_snd_pcm_mmap_commit := (\<lambda>pcm off n. - 32) \<rparr>"

subsection \<open>The playback worker\<close>

fun is_render :: "play_call \<Rightarrow> bool" where
  "is_render (Call_draw_picture t w' h' d) = True"
| "is_render c = False"

text \<open>The number of frames rendered so far.\<close>

definition renders :: "play_worker \<Rightarrow> nat" where
  "renders k = length (filter is_render (play_calls k))"

text \<open>
  The calls that present a frame: rendering it, sleeping until it is due, and swapping
  the buffers; and those of them the worker has made so far, in order.
\<close>

fun is_frame_call :: "play_call \<Rightarrow> bool" where
  "is_frame_call (Call_draw_picture t w' h' d) = True"
| "is_frame_call (Call_usleep d) = True"
| "is_frame_call (Call_glXSwapBuffers d) = True"
| "is_frame_call c = False"

definition frame_calls :: "play_worker \<Rightarrow> play_call list" where
  "frame_calls k = filter is_frame_call (play_calls k)"

text \<open>
  The events that report that the worker's window was destroyed or is being closed; they
  are sent for a window, which exists only once \<open>gl_play_create_ctx\<close> has created it.
\<close>

fun is_stop_event :: "XEvent \<Rightarrow> bool" where
  "is_stop_event DestroyNotify = True"
| "is_stop_event (ClientMessage message_type data0) = True"
| "is_stop_event e = False"

text \<open>The worker is asked to stop once the pending events are handled.\<close>

definition stop_requested :: "play_environment \<Rightarrow> play_worker \<Rightarrow> bool" where
  "stop_requested env k =
     (glc_thread_state_t.flags (state (gl_handle_xevents env k)) AND GLC_THREAD_STOP env \<noteq> 0)"

text \<open>
  Example inputs: a worker for context 1 whose thread state holds message \<open>m\<close>, fresh or
  with its context created for a 640 by 480 picture, and an environment with no pending
  event whose clock reads \<open>t\<close>. The stop flag is given the value 8 in the examples; every
  non-zero value gives the same runs.
\<close>

definition fresh_worker :: "glc_message \<Rightarrow> play_worker" where
  "fresh_worker m =
     \<lparr> gl_play = gl_play_init 1, play_glc = \<lparr> glc_t.flags = 0 \<rparr>,
       state = \<lparr> glc_thread_state_t.flags = 0, message = m \<rparr>, play_calls = [] \<rparr>"

definition active_worker :: "glc_message \<Rightarrow> play_worker" where
  "active_worker m =
     (fresh_worker m)
       \<lparr> gl_play := (gl_play_init 1)
           \<lparr> gl_play_private_s.w := 640, gl_play_private_s.h := 480, drawable := 30,
             gl_play_private_s.ctx := 31, name := ''glc-play (ctx 1)'', created := 1,
             texture := 1, delete_atom := 40, wm_proto_atom := 41 \<rparr> \<rparr>"

definition quiet_environment :: "glc_utime_t \<Rightarrow> play_environment" where
  "quiet_environment t =
     \<lparr> GLC_THREAD_STOP = 8, pending = [], util_timestamp = t, glXChooseVisual = 50,
       XCreateWindow = 30, glXCreateContext = 31, XInternAtom = (\<lambda>n. 40 + length n),
       glGenTextures = 1 \<rparr>"

definition picture_for :: "glc_ctx_i \<Rightarrow> glc_utime_t \<Rightarrow> glc_message" where
  "picture_for c t = Picture_message \<lparr> timestamp = t, glc_picture_header_t.ctx = c \<rparr> [0, 0, 0]"

definition ctx_message :: "glc_flags_t \<Rightarrow> glc_ctx_i \<Rightarrow> glc_message" where
  "ctx_message f c =
     Ctx_message \<lparr> glc_ctx_message_t.flags = f, glc_ctx_message_t.ctx = c,
                   glc_ctx_message_t.w = 640, glc_ctx_message_t.h = 480 \<rparr>"

section \<open>The capture descriptor parser\<close>

lemma scan_u_48000: "scan_u ''48000,2'' = Some (48000, '',2'')"
  by (simp add: scan_u_def isspace_def isdigit_def decimal_def digit_val_def)

lemma scan_u_2: "scan_u ''2'' = Some (2, [])"
  by (simp add: scan_u_def isspace_def isdigit_def decimal_def digit_val_def)

lemma sscanf_48000_2: "sscanf_rate_channels '',48000,2'' (44100, 1) = (48000, 2)"
  by (simp add: sscanf_rate_channels_def scan_u_48000 scan_u_2)

text \<open>
  At the first turn of the loop \<open>strstr (device, ",")\<close> finds the comma of the second
  spec, so the first stream takes the second spec's rate and channels and a device name
  that runs up to that comma.
\<close>

lemma parse_stream_first:
  "parse_stream ''hw:0;hw:1,48000,2'' =
     \<lparr> alsa_capture_stream_s.capture = 0,
       device = \<lparr> alloc = 9, bytes = ''hw:0;hw:1'' @ [CHR 0x00] \<rparr>,
       channels = 2, rate = 48000 \<rparr>"
  by (simp add: parse_stream_def strstr1_def sscanf_48000_2 malloc_def memcpy_def
      store_next_def NULL_def)

lemma parse_stream_second:
  "parse_stream ''hw:1,48000,2'' =
     \<lparr> alsa_capture_stream_s.capture = 0,
       device = \<lparr> alloc = 4, bytes = ''hw:1'' @ [CHR 0x00] \<rparr>,
       channels = 2, rate = 48000 \<rparr>"
  by (simp add: parse_stream_def strstr1_def sscanf_48000_2 malloc_def memcpy_def
      store_next_def NULL_def)

lemma parse_loop_example:
  "parse_loop (Some ''hw:0;hw:1,48000,2'') [] =
     [parse_stream ''hw:1,48000,2'', parse_stream ''hw:0;hw:1,48000,2'']"
  by (simp add: parse_loop.simps strstr1_def Let_def)

text \<open>
  Claim C1 says that the descriptor \<open>hw:0;hw:1,48000,2\<close> parses to exactly two streams,
  one with device \<open>hw:0\<close>, rate 44100 and 1 channel, and one with device \<open>hw:1\<close>, rate
  48000 and 2 channels. Run on that descriptor from an empty list, the parser does build
  two streams, and the one for \<open>hw:1\<close> is as claimed; the other has device
  \<open>hw:0;hw:1\<close>, rate 48000 and 2 channels instead of \<open>hw:0\<close>, 44100 and 1.
\<close>

theorem parse_example_descriptor:
  "map (\<lambda>s. (c_str (device s), rate s, channels s))
     (capture_stream (alsa (snd (alsa_parse_capture_cfg ''hw:0;hw:1,48000,2''
        (p \<lparr> alsa := (alsa p) \<lparr> capture_stream := [] \<rparr> \<rparr>)))))
   = [(''hw:1'', 48000, 2), (''hw:0;hw:1'', 48000, 2)]"
  by (simp add: alsa_parse_capture_cfg_def parse_loop_example parse_stream_first
      parse_stream_second c_str_def)

lemma parse_stream_bytes:
  "length (bytes (device (parse_stream dev))) = Suc (alloc (device (parse_stream dev)))
   \<and> List.last (bytes (device (parse_stream dev))) = CHR 0x00"
  by (simp add: parse_stream_def strstr1_def malloc_def memcpy_def store_next_def Let_def
      split: prod.splits option.splits)

lemma parse_loop_all:
  "list_all Q streams \<Longrightarrow> (\<And>dev. Q (parse_stream dev)) \<Longrightarrow> list_all Q (parse_loop d streams)"
  by (induction d streams rule: parse_loop.induct) (simp_all add: Let_def parse_loop.simps)

text \<open>
  Claim C9 says that the parser stores each device name null-terminated within its
  allocation. For every descriptor and every stream the parser builds from it, the block
  of the device name was allocated with \<open>len\<close> bytes and holds \<open>len + 1\<close> stored bytes,
  the last of them the terminator: the terminator is stored at offset \<open>len\<close>, one past
  the end of the block.
\<close>

theorem device_terminator_past_allocation:
  "list_all (\<lambda>s. length (bytes (device s)) = Suc (alloc (device s))
               \<and> List.last (bytes (device s)) = CHR 0x00 \<and> \<not> in_bounds (device s))
     (capture_stream (alsa (snd (alsa_parse_capture_cfg cfg
        (p \<lparr> alsa := (alsa p) \<lparr> capture_stream := [] \<rparr> \<rparr>)))))"
  by (simp add: alsa_parse_capture_cfg_def parse_loop_all parse_stream_bytes in_bounds_def)

section \<open>Starting capture\<close>

text \<open>
  Claim C6: called when capture has already been started, \<open>alsa_start\<close> returns
  \<open>EINVAL\<close> and leaves the whole state as it was; it makes no call (no patching, no
  audio hook, no capture stream opened) and the started flag keeps its value.
\<close>

theorem alsa_start_twice:
  "started (alsa p) \<noteq> 0 \<Longrightarrow> alsa_start env buffer p = Returned EINVAL p"
  by (simp add: alsa_start_def)

theorem alsa_start_twice_witness:
  "started (alsa capturing_process) \<noteq> 0
   \<and> alsa_start good_environment 9 capturing_process = Returned 22 capturing_process"
proof -
  have h: "started (alsa capturing_process) \<noteq> 0"
    by (simp add: capturing_process_def alsa_zero_def)
  from alsa_start_twice [OF h, of good_environment 9] h show ?thesis
    by (simp add: EINVAL_def)
qed

section \<open>The intercepted entry points\<close>

lemma calls_since_call [simp]:
  "calls_since p (call c q) =
     calls_since p q @ (if length (calls p) \<le> length (calls q) then [c] else [])"
  by (simp add: calls_since_def call_def)

lemma calls_since_self [simp]: "calls_since p p = []"
  by (simp add: calls_since_def)

lemma call_fields [simp]:
  "alsa (call c p) = alsa p" "glc (call c p) = glc p" "lib (call c p) = lib p"
  "alsa_loaded (call c p) = alsa_loaded p" "calls (call c p) = calls p @ [c]"
  by (simp_all add: call_def)

lemma capturing_simps:
  "capture (alsa capturing_process) = 1" "glc_t.flags (glc capturing_process) = 1"
  "audio_hook (alsa capturing_process) = 7" "calls capturing_process = []"
  by (simp_all add: capturing_process_def alsa_zero_def GLC_CAPTURE_def)

text \<open>
  Claim C2, amended. Every intercepted entry point returns what the real function
  returned. \<open>snd_pcm_writei\<close>, \<open>snd_pcm_writen\<close> and \<open>snd_pcm_mmap_begin\<close> emit audio
  only when capture is enabled and the \<open>GLC_CAPTURE\<close> flag is set, only after the real
  call, and only when it succeeded (a positive frame count for the two writes, a
  non-negative code for \<open>snd_pcm_mmap_begin\<close>). \<open>snd_pcm_mmap_commit\<close> emits exactly
  when capture is enabled and the flag is set, and it does so before the real call,
  whatever that call then returns.
\<close>

theorem entry_points_forward_and_emit:
  "fst (alsa_snd_pcm_writei env pcm buffer n p0) = real_snd_pcm_writei env pcm buffer n
   \<and> emits_only_after_success (INIT_GLC env p0) (0 < sint (real_snd_pcm_writei env pcm buffer n))
        (snd (alsa_snd_pcm_writei env pcm buffer n p0))
   \<and> fst (alsa_snd_pcm_writen env pcm bufs n p0) = real_snd_pcm_writen env pcm bufs n
   \<and> emits_only_after_success (INIT_GLC env p0) (0 < sint (real_snd_pcm_writen env pcm bufs n))
        (snd (alsa_snd_pcm_writen env pcm bufs n p0))
   \<and> fst (alsa_snd_pcm_mmap_begin env pcm n p0) = fst (real_snd_pcm_mmap_begin env pcm n)
   \<and> emits_only_after_success (INIT_GLC env p0) (0 \<le> fst (real_snd_pcm_mmap_begin env pcm n))
        (snd (alsa_snd_pcm_mmap_begin env pcm n p0))
   \<and> fst (alsa_snd_pcm_mmap_commit env pcm offset n p0) = real_snd_pcm_mmap_commit env pcm offset n
   \<and> filter (\<lambda>c. is_emission c \<or> is_real_call c)
        (calls_since (INIT_GLC env p0) (snd (alsa_snd_pcm_mmap_commit env pcm offset n p0)))
      = (if capture (alsa (INIT_GLC env p0)) \<noteq> 0
            \<and> glc_t.flags (glc (INIT_GLC env p0)) AND GLC_CAPTURE \<noteq> 0
         then [Audio_hook_alsa_mmap_commit (audio_hook (alsa (INIT_GLC env p0))) pcm offset n]
         else [])
        @ [Real_call ''snd_pcm_mmap_commit'']"
proof -
  have a: "fst (alsa_snd_pcm_writei env pcm buffer n p0) = real_snd_pcm_writei env pcm buffer n"
    by (simp add: alsa_snd_pcm_writei_def Let_def)
  have b: "emits_only_after_success (INIT_GLC env p0)
        (0 < sint (real_snd_pcm_writei env pcm buffer n))
        (snd (alsa_snd_pcm_writei env pcm buffer n p0))"
    by (simp add: alsa_snd_pcm_writei_def emits_only_after_success_def Let_def)
  have c: "fst (alsa_snd_pcm_writen env pcm bufs n p0) = real_snd_pcm_writen env pcm bufs n"
    by (simp add: alsa_snd_pcm_writen_def Let_def)
  have d: "emits_only_after_success (INIT_GLC env p0)
        (0 < sint (real_snd_pcm_writen env pcm bufs n))
        (snd (alsa_snd_pcm_writen env pcm bufs n p0))"
    by (simp add: alsa_snd_pcm_writen_def emits_only_after_success_def Let_def)
  have e: "fst (alsa_snd_pcm_mmap_begin env pcm n p0) = fst (real_snd_pcm_mmap_begin env pcm n)"
    by (simp add: alsa_snd_pcm_mmap_begin_def Let_def split: prod.splits)
  have f: "emits_only_after_success (INIT_GLC env p0)
        (0 \<le> fst (real_snd_pcm_mmap_begin env pcm n))
        (snd (alsa_snd_pcm_mmap_begin env pcm n p0))"
    by (simp add: alsa_snd_pcm_mmap_begin_def emits_only_after_success_def Let_def
        split: prod.splits)
  have g: "fst (alsa_snd_pcm_mmap_commit env pcm offset n p0)
      = real_snd_pcm_mmap_commit env pcm offset n"
    by (simp add: alsa_snd_pcm_mmap_commit_def Let_def)
  have h: "filter (\<lambda>c. is_emission c \<or> is_real_call c)
        (calls_since (INIT_GLC env p0) (snd (alsa_snd_pcm_mmap_commit env pcm offset n p0)))
      = (if capture (alsa (INIT_GLC env p0)) \<noteq> 0
            \<and> glc_t.flags (glc (INIT_GLC env p0)) AND GLC_CAPTURE \<noteq> 0
         then [Audio_hook_alsa_mmap_commit (audio_hook (alsa (INIT_GLC env p0))) pcm offset n]
         else [])
        @ [Real_call ''snd_pcm_mmap_commit'']"
    by (simp add: alsa_snd_pcm_mmap_commit_def Let_def)
  from a b c d e f g h show ?thesis by blast
qed

theorem entry_points_forward_and_emit_witness:
  "fst (alsa_snd_pcm_writei good_environment 1 2 4 capturing_process) = 4
   \<and> calls_since (INIT_GLC good_environment capturing_process)
        (snd (alsa_snd_pcm_writei good_environment 1 2 4 capturing_process))
      = [Real_call ''snd_pcm_writei'', Audio_hook_alsa_i 7 1 2 4]
   \<and> emits_only_after_success (INIT_GLC good_environment capturing_process) True
        (snd (alsa_snd_pcm_writei good_environment 1 2 4 capturing_process))"
  using entry_points_forward_and_emit [of good_environment 1 2 4 capturing_process]
  by (simp add: alsa_snd_pcm_writei_def INIT_GLC_def good_environment_def capturing_simps
      GLC_CAPTURE_def Let_def)

text \<open>
  Claim C2 as stated fails for \<open>snd_pcm_mmap_commit\<close>: with capture enabled and the flag
  set, a commit of 64 frames whose real call fails with \<open>-32\<close> has emitted the audio
  before the real call was made.
\<close>

theorem mmap_commit_emits_before_failed_call:
  "calls_since (INIT_GLC bad_environment capturing_process)
      (snd (alsa_snd_pcm_mmap_commit bad_environment 1 0 64 capturing_process))
     = [Audio_hook_alsa_mmap_commit 7 1 0 64, Real_call ''snd_pcm_mmap_commit'',
        Util_log ''frames=%lu, ret=%ld'']
   \<and> sint (real_snd_pcm_mmap_commit bad_environment 1 0 64) = - 32
   \<and> \<not> emits_only_after_success (INIT_GLC bad_environment capturing_process)
          (0 \<le> sint (real_snd_pcm_mmap_commit bad_environment 1 0 64))
          (snd (alsa_snd_pcm_mmap_commit bad_environment 1 0 64 capturing_process))"
  by (simp add: alsa_snd_pcm_mmap_commit_def INIT_GLC_def bad_environment_def
      good_environment_def capturing_simps GLC_CAPTURE_def Let_def emits_only_after_success_def)

section \<open>Resolving the real entry points and patching other objects\<close>

lemma get_real_dlsym_fields [simp]:
  "alsa (get_real_dlsym env p) = alsa p" "alsa_loaded (get_real_dlsym env p) = alsa_loaded p"
  "calls (get_real_dlsym env p) = calls p @ [Get_real_dlsym]"
  by (simp_all add: get_real_dlsym_def)

lemma get_real_alsa_loaded:
  "alsa_loaded p \<noteq> 0 \<Longrightarrow>
     get_real_alsa env p = Returned () (if dlopen (lib p) = NULL then get_real_dlsym env p else p)"
  by (simp add: get_real_alsa_def Let_def)

lemma get_real_alsa_resolves:
  assumes "alsa_loaded p = 0" and "resolvable env"
  shows "\<exists>q. get_real_alsa env p = Returned () q \<and> resolved q \<and> alsa_loaded q = 1
           \<and> lookups q = lookups p @ all_lookups env
           \<and> filter is_patch (calls_since p q) = []
           \<and> length (calls p) \<le> length (calls q)
           \<and> cached env q"
  using assms
  by (simp add: get_real_alsa_def resolvable_def resolved_def lookups_def all_lookups_def
      lib_dlsym_def err_def Let_def NULL_def calls_since_def cached_def)

lemma get_real_alsa_exits:
  assumes "alsa_loaded p = 0" and "\<not> resolvable env"
  shows "\<exists>q n. get_real_alsa env p = Exited 1 q
           \<and> lookups q = lookups p @ take n (all_lookups env)
           \<and> filter is_patch (calls_since p q) = []
           \<and> length (calls p) \<le> length (calls q) \<and> alsa_loaded q = 0"
proof -
  let ?h = "env_dlopen env ''libasound.so''"
  consider (a) "?h = NULL"
    | (b) "?h \<noteq> NULL" "env_dlsym env ?h ''snd_pcm_open'' = NULL"
    | (c) "?h \<noteq> NULL" "env_dlsym env ?h ''snd_pcm_open'' \<noteq> NULL"
          "env_dlsym env ?h ''snd_pcm_writei'' = NULL"
    | (d) "?h \<noteq> NULL" "env_dlsym env ?h ''snd_pcm_open'' \<noteq> NULL"
          "env_dlsym env ?h ''snd_pcm_writei'' \<noteq> NULL" "env_dlsym env ?h ''snd_pcm_writen'' = NULL"
    | (e) "?h \<noteq> NULL" "env_dlsym env ?h ''snd_pcm_open'' \<noteq> NULL"
          "env_dlsym env ?h ''snd_pcm_writei'' \<noteq> NULL" "env_dlsym env ?h ''snd_pcm_writen'' \<noteq> NULL"
          "env_dlsym env ?h ''snd_pcm_mmap_begin'' = NULL"
    | (f) "?h \<noteq> NULL" "env_dlsym env ?h ''snd_pcm_open'' \<noteq> NULL"
          "env_dlsym env ?h ''snd_pcm_writei'' \<noteq> NULL" "env_dlsym env ?h ''snd_pcm_writen'' \<noteq> NULL"
          "env_dlsym env ?h ''snd_pcm_mmap_begin'' \<noteq> NULL"
          "env_dlsym env ?h ''snd_pcm_mmap_commit'' = NULL"
    using assms(2) by (auto simp: resolvable_def)
  then show ?thesis
  proof cases
    case a
    with assms(1) have "\<exists>q. get_real_alsa env p = Exited 1 q
           \<and> lookups q = lookups p @ take 1 (all_lookups env)
           \<and> filter is_patch (calls_since p q) = []
           \<and> length (calls p) \<le> length (calls q) \<and> alsa_loaded q = 0"
      by (simp add: get_real_alsa_def lookups_def all_lookups_def lib_dlsym_def err_def Let_def
          calls_since_def)
    then show ?thesis by blast
  next
    case b
    with assms(1) have "\<exists>q. get_real_alsa env p = Exited 1 q
           \<and> lookups q = lookups p @ take 2 (all_lookups env)
           \<and> filter is_patch (calls_since p q) = []
           \<and> length (calls p) \<le> length (calls q) \<and> alsa_loaded q = 0"
      by (simp add: get_real_alsa_def lookups_def all_lookups_def lib_dlsym_def err_def Let_def
          calls_since_def)
    then show ?thesis by blast
  next
    case c
    with assms(1) have "\<exists>q. get_real_alsa env p = Exited 1 q
           \<and> lookups q = lookups p @ take 3 (all_lookups env)
           \<and> filter is_patch (calls_since p q) = []
           \<and> length (calls p) \<le> length (calls q) \<and> alsa_loaded q = 0"
      by (simp add: get_real_alsa_def lookups_def all_lookups_def lib_dlsym_def err_def Let_def
          calls_since_def)
    then show ?thesis by blast
  next
    case d
    with assms(1) have "\<exists>q. get_real_alsa env p = Exited 1 q
           \<and> lookups q = lookups p @ take 4 (all_lookups env)
           \<and> filter is_patch (calls_since p q) = []
           \<and> length (calls p) \<le> length (calls q) \<and> alsa_loaded q = 0"
      by (simp add: get_real_alsa_def lookups_def all_lookups_def lib_dlsym_def err_def Let_def
          calls_since_def)
    then show ?thesis by blast
  next
    case e
    with assms(1) have "\<exists>q. get_real_alsa env p = Exited 1 q
           \<and> lookups q = lookups p @ take 5 (all_lookups env)
           \<and> filter is_patch (calls_since p q) = []
           \<and> length (calls p) \<le> length (calls q) \<and> alsa_loaded q = 0"
      by (simp add: get_real_alsa_def lookups_def all_lookups_def lib_dlsym_def err_def Let_def
          calls_since_def)
    then show ?thesis by blast
  next
    case f
    with assms(1) have "\<exists>q. get_real_alsa env p = Exited 1 q
           \<and> lookups q = lookups p @ take 6 (all_lookups env)
           \<and> filter is_patch (calls_since p q) = []
           \<and> length (calls p) \<le> length (calls q) \<and> alsa_loaded q = 0"
      by (simp add: get_real_alsa_def lookups_def all_lookups_def lib_dlsym_def err_def Let_def
          calls_since_def)
    then show ?thesis by blast
  qed
qed

lemma outcome_ok_forget [simp]: "outcome_ok env (forget r) = outcome_ok env r"
  by (cases r) (simp_all add: forget_def outcome_ok_def)

lemma get_real_alsa_ok:
  assumes "resolved_once env p"
  shows "outcome_ok env (get_real_alsa env p)"
proof (cases "alsa_loaded p = 0")
  case True
  with assms have l: "lookups p = []" by (simp add: resolved_once_def)
  show ?thesis
  proof (cases "resolvable env")
    case True
    from get_real_alsa_resolves [OF \<open>alsa_loaded p = 0\<close> True] l show ?thesis
      by (auto simp: outcome_ok_def resolved_once_def)
  next
    case False
    from get_real_alsa_exits [OF \<open>alsa_loaded p = 0\<close> False] l show ?thesis
      by (auto simp: outcome_ok_def)
  qed
next
  case False
  with assms show ?thesis
    by (simp add: get_real_alsa_loaded outcome_ok_def resolved_once_def cached_def resolved_def lookups_def)
qed

lemma alsa_unhook_so_ok:
  assumes "resolved_once env p"
  shows "outcome_ok env (alsa_unhook_so env soname p)"
proof -
  have "outcome_ok env (if alsa_loaded p = 0 then get_real_alsa env p else Returned () p)"
    using assms get_real_alsa_ok [OF assms] by (simp add: outcome_ok_def)
  then show ?thesis
    by (cases "if alsa_loaded p = 0 then get_real_alsa env p else Returned () p")
       (auto simp: alsa_unhook_so_def outcome_ok_def resolved_once_def cached_def resolved_def lookups_def
          call_def Let_def split: if_splits)
qed

lemma alsa_init_ok:
  assumes "resolved_once env p"
  shows "outcome_ok env (alsa_init env p)"
proof -
  define p4 where "p4 =
     (let p1 = call (Util_log ''initializing'')
                 (p \<lparr> alsa := (alsa p) \<lparr> started := 0, capture_stream := [] \<rparr> \<rparr>);
          p2 = p1 \<lparr> alsa := (alsa p1)
                 \<lparr> capture := (case env_getenv env ''GLC_AUDIO'' of Some v \<Rightarrow> atoi v | None \<Rightarrow> 1) \<rparr> \<rparr>;
          p3 = (case env_getenv env ''GLC_AUDIO_SKIP'' of
                  Some v \<Rightarrow>
                    if atoi v \<noteq> 0
                    then p2 \<lparr> glc := (glc p2) \<lparr> glc_t.flags := glc_t.flags (glc p2) OR GLC_AUDIO_ALLOW_SKIP \<rparr> \<rparr>
                    else p2
                | None \<Rightarrow> p2)
      in (case env_getenv env ''GLC_AUDIO_RECORD'' of
                  Some cfg \<Rightarrow> snd (alsa_parse_capture_cfg cfg p3)
                | None \<Rightarrow> p3))"
  have "alsa_loaded p4 = alsa_loaded p \<and> lookups p4 = lookups p
      \<and> cached env p4 = cached env p \<and> resolved p4 = resolved p"
    by (simp add: p4_def Let_def lookups_def call_def alsa_parse_capture_cfg_def cached_def
        resolved_def split: option.splits)
  with assms have "resolved_once env p4"
    by (simp add: resolved_once_def)
  then have "outcome_ok env (get_real_alsa env p4)"
    by (rule get_real_alsa_ok)
  moreover have "alsa_init env p =
      (case get_real_alsa env p4 of
           Exited status q \<Rightarrow> Exited status q
         | Crashed q \<Rightarrow> Crashed q
         | Returned u q \<Rightarrow> Returned 0 q)"
    by (simp add: alsa_init_def p4_def Let_def)
  ultimately show ?thesis
    by (cases "get_real_alsa env p4") (simp_all add: outcome_ok_def)
qed

lemma lookups_start_streams:
  "start_streams env buffer ss = (ss', cs) \<Longrightarrow> filter is_lookup cs = []"
  by (induction ss arbitrary: ss' cs) (auto simp: Let_def split: prod.splits)

lemma alsa_start_ok:
  assumes "resolved_once env p"
  shows "outcome_ok env (alsa_start env buffer p)"
proof (cases "started (alsa p) \<noteq> 0")
  case True
  with assms show ?thesis by (simp add: alsa_start_def outcome_ok_def)
next
  case False
  have u: "outcome_ok env (alsa_unhook_so env ''*libasound.so*'' p)"
    using assms by (rule alsa_unhook_so_ok)
  show ?thesis
  proof (cases "alsa_unhook_so env ''*libasound.so*'' p")
    case (Returned r q)
    with u have "resolved_once env q" by (simp add: outcome_ok_def)
    with False Returned show ?thesis
      by (auto simp: alsa_start_def outcome_ok_def resolved_once_def cached_def resolved_def lookups_def call_def
          Let_def lookups_start_streams split: prod.splits if_splits)
  next
    case (Exited n q)
    with u False show ?thesis by (simp add: alsa_start_def outcome_ok_def)
  next
    case (Crashed q)
    with u show ?thesis by (simp add: outcome_ok_def)
  qed
qed

lemma lookups_stream_loops:
  "filter is_lookup (close_streams ss) = []" "filter is_lookup (pause_streams ss) = []"
  "filter is_lookup (resume_streams ss) = []"
  by (induction ss) simp_all

lemma alsa_close_ok: "resolved_once env p \<Longrightarrow> outcome_ok env (Returned () (snd (alsa_close p)))"
  by (auto simp: alsa_close_def outcome_ok_def resolved_once_def cached_def resolved_def lookups_def call_def Let_def
      lookups_stream_loops split: if_splits)

lemma alsa_pause_ok: "resolved_once env p \<Longrightarrow> outcome_ok env (Returned () (snd (alsa_pause p)))"
  by (auto simp: alsa_pause_def outcome_ok_def resolved_once_def cached_def resolved_def lookups_def
      lookups_stream_loops split: if_splits)

lemma alsa_resume_ok: "resolved_once env p \<Longrightarrow> outcome_ok env (Returned () (snd (alsa_resume p)))"
  by (auto simp: alsa_resume_def outcome_ok_def resolved_once_def cached_def resolved_def lookups_def
      lookups_stream_loops split: if_splits)

lemma api_step_ok: "resolved_once env p \<Longrightarrow> outcome_ok env (api_step env c p)"
  by (cases c)
    (simp_all add: alsa_init_ok alsa_start_ok alsa_unhook_so_ok get_real_alsa_ok alsa_close_ok
       alsa_pause_ok alsa_resume_ok)

lemma process_run_ok: "resolved_once env p \<Longrightarrow> outcome_ok env (process_run env cs p)"
proof (induction cs arbitrary: p)
  case Nil
  then show ?case by (simp add: outcome_ok_def)
next
  case (Cons c cs)
  from Cons.prems have s: "outcome_ok env (api_step env c p)" by (rule api_step_ok)
  show ?case
  proof (cases "api_step env c p")
    case (Returned u q)
    with s have "resolved_once env q" by (simp add: outcome_ok_def)
    then have "outcome_ok env (process_run env cs q)" by (rule Cons.IH)
    with Returned show ?thesis by simp
  next
    case (Exited n q)
    with s show ?thesis by (simp add: outcome_ok_def)
  next
    case (Crashed q)
    with s show ?thesis by (simp add: outcome_ok_def)
  qed
qed

lemma distinct_all_lookups: "distinct (all_lookups env)"
  by (simp add: all_lookups_def)

text \<open>
  Claim C7. From a process in which nothing is resolved yet, whatever sequence of
  \<open>alsa_init\<close>, \<open>alsa_start\<close>, \<open>alsa_unhook_so\<close>, \<open>get_real_alsa\<close>, \<open>alsa_close\<close>,
  \<open>alsa_pause\<close> and \<open>alsa_resume\<close> calls is made,
  the look-ups made up to the end of the process are an initial part of one single
  resolution, so the library is opened and each symbol is looked up at most once: once
  \<open>alsa_loaded\<close> is set no look-up is made again. At the end of any such sequence, when
  \<open>alsa_loaded\<close> is set the struct still holds the handle \<open>lib.dlopen\<close> returned and,
  for each of the five entry points, the address \<open>lib.dlsym\<close> returned for its name,
  none of them \<open>NULL\<close>; and a call of \<open>get_real_alsa\<close> with \<open>alsa_loaded\<close> set returns
  with the struct untouched and no look-up made. When the library and the five symbols
  resolve, \<open>get_real_alsa\<close> returns with all of them stored and \<open>alsa_loaded\<close> set;
  when the library or any symbol does not resolve, \<open>get_real_alsa\<close> does not return:
  the process ends in it (\<open>exit (1)\<close>).
\<close>

theorem real_alsa_resolved_once:
  assumes "alsa_loaded p = 0" and "lookups p = []"
  shows "(\<exists>m. lookups (final_state (process_run env cs p)) = take m (all_lookups env))
       \<and> distinct (lookups (final_state (process_run env cs p)))
       \<and> (resolvable env \<longrightarrow>
            (\<exists>q. get_real_alsa env p = Returned () q \<and> resolved q \<and> alsa_loaded q = 1
                 \<and> lookups q = all_lookups env \<and> cached env q))
       \<and> (\<not> resolvable env \<longrightarrow> (\<exists>q. get_real_alsa env p = Exited 1 q))
       \<and> (alsa_loaded (final_state (process_run env cs p)) \<noteq> 0 \<longrightarrow>
            cached env (final_state (process_run env cs p))
            \<and> resolved (final_state (process_run env cs p))
            \<and> lookups (final_state (process_run env cs p)) = all_lookups env)
       \<and> (\<forall>p'. alsa_loaded p' \<noteq> 0 \<longrightarrow>
            (\<exists>q. get_real_alsa env p' = Returned () q \<and> alsa q = alsa p'
                 \<and> alsa_loaded q = alsa_loaded p' \<and> lookups q = lookups p'))"
proof -
  from assms have "resolved_once env p" by (simp add: resolved_once_def)
  then have ok: "outcome_ok env (process_run env cs p)" by (rule process_run_ok)
  then have a: "\<exists>m. lookups (final_state (process_run env cs p)) = take m (all_lookups env)"
  proof (cases "process_run env cs p")
    case (Returned u q)
    assume "outcome_ok env (process_run env cs p)"
    with Returned have "lookups q = take 0 (all_lookups env) \<or> lookups q = take 6 (all_lookups env)"
      by (simp add: outcome_ok_def resolved_once_def all_lookups_def split: if_splits)
    with Returned show ?thesis by (auto simp: final_state_def)
  qed (auto simp: outcome_ok_def final_state_def)
  then have b: "distinct (lookups (final_state (process_run env cs p)))"
    using distinct_all_lookups [of env] by (auto simp: distinct_take)
  have c: "resolvable env \<longrightarrow>
            (\<exists>q. get_real_alsa env p = Returned () q \<and> resolved q \<and> alsa_loaded q = 1
                 \<and> lookups q = all_lookups env \<and> cached env q)"
    using get_real_alsa_resolves [OF assms(1), of env] assms(2) by auto
  have d: "\<not> resolvable env \<longrightarrow> (\<exists>q. get_real_alsa env p = Exited 1 q)"
    using get_real_alsa_exits [OF assms(1), of env] by auto
  have e: "alsa_loaded (final_state (process_run env cs p)) \<noteq> 0 \<longrightarrow>
            cached env (final_state (process_run env cs p))
            \<and> resolved (final_state (process_run env cs p))
            \<and> lookups (final_state (process_run env cs p)) = all_lookups env"
    using ok
    by (cases "process_run env cs p")
      (simp_all add: outcome_ok_def resolved_once_def final_state_def split: if_splits)
  have f: "\<forall>p'. alsa_loaded p' \<noteq> 0 \<longrightarrow>
            (\<exists>q. get_real_alsa env p' = Returned () q \<and> alsa q = alsa p'
                 \<and> alsa_loaded q = alsa_loaded p' \<and> lookups q = lookups p')"
    by (simp add: get_real_alsa_loaded lookups_def)
  from a b c d e f show ?thesis by blast
qed

lemma resolvable_good: "resolvable good_environment"
  by (simp add: resolvable_def good_environment_def NULL_def)

lemma not_resolvable_bad: "\<not> resolvable bad_environment"
  by (simp add: resolvable_def bad_environment_def good_environment_def)

lemma fresh_simps: "alsa_loaded fresh_process = 0" "lookups fresh_process = []"
  "calls fresh_process = []"
  by (simp_all add: fresh_process_def lookups_def)

theorem real_alsa_resolved_once_witness:
  "alsa_loaded fresh_process = 0 \<and> lookups fresh_process = []
   \<and> (\<exists>m. lookups (final_state (process_run good_environment
              [Call_alsa_init, Call_alsa_start 9, Call_get_real_alsa, Call_alsa_close]
              fresh_process))
            = take m (all_lookups good_environment))
   \<and> distinct (lookups (final_state (process_run good_environment
              [Call_alsa_init, Call_alsa_start 9, Call_get_real_alsa, Call_alsa_close]
              fresh_process)))
   \<and> (\<exists>q. process_run good_environment [Call_get_real_alsa] fresh_process = Returned () q
          \<and> resolved q \<and> alsa_loaded q = 1 \<and> lookups q = all_lookups good_environment
          \<and> libasound_handle (alsa q) = 3 \<and> snd_pcm_open (alsa q) = 22
          \<and> snd_pcm_writei (alsa q) = 24 \<and> snd_pcm_writen (alsa q) = 24
          \<and> snd_pcm_mmap_begin (alsa q) = 28 \<and> snd_pcm_mmap_commit (alsa q) = 29
          \<and> (\<exists>q'. get_real_alsa good_environment q = Returned () q' \<and> alsa q' = alsa q
                \<and> lookups q' = lookups q))
   \<and> (\<exists>q. get_real_alsa bad_environment fresh_process = Exited 1 q)"
proof -
  note t = real_alsa_resolved_once [OF fresh_simps(1) fresh_simps(2)]
  from t [of good_environment "[Call_get_real_alsa]"] resolvable_good
  obtain q where q: "get_real_alsa good_environment fresh_process = Returned () q"
      "resolved q" "alsa_loaded q = 1" "lookups q = all_lookups good_environment"
    by blast
  then have run: "process_run good_environment [Call_get_real_alsa] fresh_process = Returned () q"
    by simp
  with t [of good_environment "[Call_get_real_alsa]"] q(3)
  have "cached good_environment q"
    by (simp add: final_state_def)
  then have vals: "libasound_handle (alsa q) = 3 \<and> snd_pcm_open (alsa q) = 22
          \<and> snd_pcm_writei (alsa q) = 24 \<and> snd_pcm_writen (alsa q) = 24
          \<and> snd_pcm_mmap_begin (alsa q) = 28 \<and> snd_pcm_mmap_commit (alsa q) = 29"
    by (simp add: cached_def good_environment_def)
  from t [of good_environment "[]"]
  have all: "\<forall>p'. alsa_loaded p' \<noteq> 0 \<longrightarrow>
            (\<exists>q. get_real_alsa good_environment p' = Returned () q \<and> alsa q = alsa p'
                 \<and> alsa_loaded q = alsa_loaded p' \<and> lookups q = lookups p')"
    by blast
  from q(3) have "alsa_loaded q \<noteq> 0"
    by simp
  with all have again: "\<exists>q'. get_real_alsa good_environment q = Returned () q' \<and> alsa q' = alsa q
                \<and> lookups q' = lookups q"
    by blast
  from t [of good_environment
          "[Call_alsa_init, Call_alsa_start 9, Call_get_real_alsa, Call_alsa_close]"]
  have whole: "(\<exists>m. lookups (final_state (process_run good_environment
              [Call_alsa_init, Call_alsa_start 9, Call_get_real_alsa, Call_alsa_close]
              fresh_process))
            = take m (all_lookups good_environment))
   \<and> distinct (lookups (final_state (process_run good_environment
              [Call_alsa_init, Call_alsa_start 9, Call_get_real_alsa, Call_alsa_close]
              fresh_process)))"
    by blast
  from t [of bad_environment "[]"] not_resolvable_bad
  have bad: "\<exists>q. get_real_alsa bad_environment fresh_process = Exited 1 q"
    by blast
  from fresh_simps run q vals again whole bad show ?thesis
    by blast
qed

lemma alsa_unhook_so_after:
  assumes "length (calls p) \<le> length (calls q)" and "filter is_patch (calls_since p q) = []"
  shows "\<exists>q'. (case Returned () q of
              Exited status p \<Rightarrow> Exited status p
            | Crashed p \<Rightarrow> Crashed p
            | Returned u p \<Rightarrow>
                let ret = env_eh_find_obj env soname;
                    p1 = call (Eh_find_obj soname) p
                in if ret \<noteq> 0 then Returned ret p1
                   else Returned 0
                     (p1 \<lparr> calls := calls p1 @
                        [Eh_set_rel ''snd_pcm_writei'' (snd_pcm_writei (alsa p1)),
                         Eh_set_rel ''snd_pcm_writen'' (snd_pcm_writen (alsa p1)),
                         Eh_set_rel ''snd_pcm_mmap_begin'' (snd_pcm_mmap_begin (alsa p1)),
                         Eh_set_rel ''snd_pcm_mmap_commit'' (snd_pcm_mmap_commit (alsa p1)),
                         Eh_set_rel ''dlsym'' (dlsym (lib p1)),
                         Eh_set_rel ''dlvsym'' (dlvsym (lib p1)),
                         Eh_destroy_obj] \<rparr>))
            = Returned (env_eh_find_obj env soname) q'
          \<and> filter is_patch (calls_since p q')
              = (if env_eh_find_obj env soname = 0 then patches q' else [])"
  using assms by (simp add: Let_def calls_since_def call_def patches_def)

text \<open>
  Claim C8, amended. When the real entry points are already resolved, or can be resolved,
  \<open>alsa_unhook_so\<close> returns the code of the object look-up: non-zero, with nothing
  rebound, when no loaded object matches the pattern, and zero, with the four intercepted
  symbols and \<open>dlsym\<close> and \<open>dlvsym\<close> rebound, when one matches. When they are not yet
  resolved and cannot be, the process ends in it with status 1 and nothing is rebound.
\<close>

theorem alsa_unhook_so_result:
  "(alsa_loaded p \<noteq> 0 \<or> resolvable env \<longrightarrow>
      (\<exists>q. alsa_unhook_so env soname p = Returned (env_eh_find_obj env soname) q
          \<and> filter is_patch (calls_since p q)
              = (if env_eh_find_obj env soname = 0 then patches q else [])))
   \<and> (alsa_loaded p = 0 \<and> \<not> resolvable env \<longrightarrow>
      (\<exists>q. alsa_unhook_so env soname p = Exited 1 q \<and> filter is_patch (calls_since p q) = []))"
proof (cases "alsa_loaded p = 0")
  case False
  then have "\<exists>q. alsa_unhook_so env soname p = Returned (env_eh_find_obj env soname) q
          \<and> filter is_patch (calls_since p q)
              = (if env_eh_find_obj env soname = 0 then patches q else [])"
    using alsa_unhook_so_after [of p p env soname]
    by (simp add: alsa_unhook_so_def calls_since_def)
  with False show ?thesis by simp
next
  case True
  show ?thesis
  proof (cases "resolvable env")
    case r: True
    from get_real_alsa_resolves [OF True r] obtain q where
      q: "get_real_alsa env p = Returned () q" "filter is_patch (calls_since p q) = []"
         "length (calls p) \<le> length (calls q)"
      by blast
    have "\<exists>q. alsa_unhook_so env soname p = Returned (env_eh_find_obj env soname) q
          \<and> filter is_patch (calls_since p q)
              = (if env_eh_find_obj env soname = 0 then patches q else [])"
      using alsa_unhook_so_after [OF q(3) q(2), of env soname] True q(1)
      by (simp add: alsa_unhook_so_def)
    with True r show ?thesis by simp
  next
    case r: False
    from get_real_alsa_exits [OF True r] obtain q where
      q: "get_real_alsa env p = Exited 1 q" "filter is_patch (calls_since p q) = []"
      by blast
    with True have "alsa_unhook_so env soname p = Exited 1 q"
      by (simp add: alsa_unhook_so_def)
    with True r q(2) show ?thesis by auto
  qed
qed

theorem alsa_unhook_so_result_witness:
  "(\<exists>q. alsa_unhook_so good_environment ''*libasound.so*'' fresh_process = Returned 0 q
        \<and> filter is_patch (calls_since fresh_process q) = patches q)
   \<and> (\<exists>q. alsa_unhook_so good_environment ''libGL.so'' capturing_process = Returned 1 q
        \<and> filter is_patch (calls_since capturing_process q) = [])
   \<and> (\<exists>q. alsa_unhook_so bad_environment ''*libasound.so*'' fresh_process = Exited 1 q
        \<and> filter is_patch (calls_since fresh_process q) = [])"
proof -
  have l: "alsa_loaded capturing_process \<noteq> 0"
    by (simp add: capturing_process_def)
  have f: "env_eh_find_obj good_environment ''*libasound.so*'' = 0"
     "env_eh_find_obj good_environment ''libGL.so'' = 1"
    by (simp_all add: good_environment_def)
  from alsa_unhook_so_result [of fresh_process good_environment "''*libasound.so*''"]
       alsa_unhook_so_result [of capturing_process good_environment "''libGL.so''"]
       alsa_unhook_so_result [of fresh_process bad_environment "''*libasound.so*''"]
       resolvable_good not_resolvable_bad fresh_simps(1) l f
  show ?thesis by simp
qed

text \<open>
  Claim C8 as stated says that \<open>alsa_unhook_so\<close> never ends the process. Called in a
  process that has not resolved the real entry points, where \<open>libasound.so\<close> cannot be
  opened, it ends the process with status 1 inside \<open>get_real_alsa\<close>.
\<close>

theorem alsa_unhook_so_exits:
  "alsa_unhook_so bad_environment ''*libasound.so*'' fresh_process =
     Exited 1 (fresh_process
       \<lparr> lib := \<lparr> dlopen = 20, dlsym = 21, dlvsym = 22 \<rparr>,
         calls := [Get_real_dlsym, Dlopen ''libasound.so'',
                   Fprintf_stderr (''(glc:alsa) can'' @ [CHR 0x27] @ ''t get real alsa'')] \<rparr>)"
  by (simp add: alsa_unhook_so_def get_real_alsa_def get_real_dlsym_def err_def call_def
      bad_environment_def good_environment_def fresh_process_def alsa_zero_def NULL_def Let_def)

section \<open>The playback read callback\<close>

lemma foldl_keeps:
  "(\<And>k e. f (handle_xevent env k e) = f k) \<Longrightarrow> f (foldl (handle_xevent env) k es) = f k"
  by (induction es arbitrary: k) simp_all

lemma handle_xevent_keeps:
  "ctx_i (gl_play (handle_xevent env k e)) = ctx_i (gl_play k)"
  "created (gl_play (handle_xevent env k e)) = created (gl_play k)"
  "fps (gl_play (handle_xevent env k e)) = fps (gl_play k)"
  "drawable (gl_play (handle_xevent env k e)) = drawable (gl_play k)"
  "gl_play_private_s.w (gl_play (handle_xevent env k e)) = gl_play_private_s.w (gl_play k)"
  "gl_play_private_s.h (gl_play (handle_xevent env k e)) = gl_play_private_s.h (gl_play k)"
  "message (state (handle_xevent env k e)) = message (state k)"
  "filter is_render (play_calls (handle_xevent env k e)) = filter is_render (play_calls k)"
  by (cases e; simp add: handle_xevent_def gl_play_update_viewport_def play_call_def Let_def)+

lemma gl_handle_xevents_keeps:
  "ctx_i (gl_play (gl_handle_xevents env k)) = ctx_i (gl_play k)"
  "created (gl_play (gl_handle_xevents env k)) = created (gl_play k)"
  "fps (gl_play (gl_handle_xevents env k)) = fps (gl_play k)"
  "drawable (gl_play (gl_handle_xevents env k)) = drawable (gl_play k)"
  "gl_play_private_s.w (gl_play (gl_handle_xevents env k)) = gl_play_private_s.w (gl_play k)"
  "gl_play_private_s.h (gl_play (gl_handle_xevents env k)) = gl_play_private_s.h (gl_play k)"
  "message (state (gl_handle_xevents env k)) = message (state k)"
  "renders (gl_handle_xevents env k) = renders k"
  unfolding gl_handle_xevents_def renders_def
  using foldl_keeps [of "\<lambda>k. ctx_i (gl_play k)" env k "pending env"]
        foldl_keeps [of "\<lambda>k. created (gl_play k)" env k "pending env"]
        foldl_keeps [of "\<lambda>k. fps (gl_play k)" env k "pending env"]
        foldl_keeps [of "\<lambda>k. drawable (gl_play k)" env k "pending env"]
        foldl_keeps [of "\<lambda>k. gl_play_private_s.w (gl_play k)" env k "pending env"]
        foldl_keeps [of "\<lambda>k. gl_play_private_s.h (gl_play k)" env k "pending env"]
        foldl_keeps [of "\<lambda>k. message (state k)" env k "pending env"]
        foldl_keeps [of "\<lambda>k. filter is_render (play_calls k)" env k "pending env"]
  by (simp_all add: handle_xevent_keeps)

lemma play_call_fields [simp]:
  "gl_play (play_call c k) = gl_play k" "state (play_call c k) = state k"
  "play_glc (play_call c k) = play_glc k" "play_calls (play_call c k) = play_calls k @ [c]"
  by (simp_all add: play_call_def)

lemma renders_update [simp]:
  "renders (k \<lparr> gl_play := g \<rparr>) = renders k" "renders (k \<lparr> state := s \<rparr>) = renders k"
  "renders (k \<lparr> play_glc := c \<rparr>) = renders k"
  by (simp_all add: renders_def)

lemma renders_play_call [simp]:
  "renders (play_call c k) = (if is_render c then Suc (renders k) else renders k)"
  by (simp add: renders_def)

lemma handle_xevent_frame_calls:
  "filter is_frame_call (play_calls (handle_xevent env k e)) = filter is_frame_call (play_calls k)"
  by (cases e; simp add: handle_xevent_def gl_play_update_viewport_def play_call_def Let_def)

lemma gl_handle_xevents_frame_calls:
  "frame_calls (gl_handle_xevents env k) = frame_calls k"
  unfolding gl_handle_xevents_def frame_calls_def
  using foldl_keeps [of "\<lambda>k. filter is_frame_call (play_calls k)" env k "pending env"]
  by (simp add: handle_xevent_frame_calls)

lemma frame_calls_update [simp]:
  "frame_calls (k \<lparr> gl_play := g \<rparr>) = frame_calls k"
  "frame_calls (k \<lparr> state := s \<rparr>) = frame_calls k"
  "frame_calls (k \<lparr> play_glc := c \<rparr>) = frame_calls k"
  "frame_calls (play_call c' k) = frame_calls k @ (if is_frame_call c' then [c'] else [])"
  by (simp_all add: frame_calls_def play_call_def)


lemma quiet_handle [simp]: "gl_handle_xevents (quiet_environment t) k = k"
  by (simp add: gl_handle_xevents_def quiet_environment_def)

lemma quiet_fields [simp]:
  "GLC_THREAD_STOP (quiet_environment t) = 8" "pending (quiet_environment t) = []"
  "util_timestamp (quiet_environment t) = t" "glXChooseVisual (quiet_environment t) = 50"
  "XCreateWindow (quiet_environment t) = 30" "glXCreateContext (quiet_environment t) = 31"
  "glGenTextures (quiet_environment t) = 1"
  by (simp_all add: quiet_environment_def)

lemma fresh_worker_fields [simp]:
  "message (state (fresh_worker m)) = m" "glc_thread_state_t.flags (state (fresh_worker m)) = 0"
  "ctx_i (gl_play (fresh_worker m)) = 1" "created (gl_play (fresh_worker m)) = 0"
  "play_calls (fresh_worker m) = []" "texture (gl_play (fresh_worker m)) = 0"
  "gl_play_private_s.ctx (gl_play (fresh_worker m)) = 0"
  by (simp_all add: fresh_worker_def gl_play_init_def NULL_def)

lemma active_worker_fields [simp]:
  "message (state (active_worker m)) = m" "glc_thread_state_t.flags (state (active_worker m)) = 0"
  "ctx_i (gl_play (active_worker m)) = 1" "created (gl_play (active_worker m)) = 1"
  "play_calls (active_worker m) = []" "texture (gl_play (active_worker m)) = 1"
  "gl_play_private_s.w (gl_play (active_worker m)) = 640"
  "gl_play_private_s.h (gl_play (active_worker m)) = 480"
  "drawable (gl_play (active_worker m)) = 30" "fps (gl_play (active_worker m)) = 0"
  "wm_proto_atom (gl_play (active_worker m)) = 41" "delete_atom (gl_play (active_worker m)) = 40"
  by (simp_all add: active_worker_def fresh_worker_def gl_play_init_def)


text \<open>
  The field \<open>fps\<close> is zeroed by \<open>gl_play_init\<close> and written nowhere in the file, so it
  is 0 in every worker; with it the callback drops every frame whose timestamp the clock
  has passed at all, also one that is late by less than a frame interval.
\<close>

lemma fps_never_written:
  "fps (gl_play_init c) = 0"
  "fps (gl_play (final_state (gl_play_read_callback env k))) = fps (gl_play k)"
proof -
  show "fps (gl_play_init c) = 0"
    by (simp add: gl_play_init_def)
  show "fps (gl_play (final_state (gl_play_read_callback env k))) = fps (gl_play k)"
    by (simp add: gl_play_read_callback_def gl_play_create_ctx_def gl_play_update_ctx_def
        gl_play_update_viewport_def gl_play_draw_picture_def final_state_def
        gl_handle_xevents_keeps Let_def split: glc_message.splits)
qed

lemma late_frame_dropped:
  assumes msg: "message (state k0) = Picture_message pic_hdr data"
      and own: "glc_picture_header_t.ctx pic_hdr = ctx_i (gl_play k0)"
      and made: "created (gl_play k0) \<noteq> 0"
      and unset: "fps (gl_play k0) = 0"
      and run: "\<not> stop_requested env k0"
      and late: "timestamp pic_hdr < util_timestamp env"
  shows "\<exists>k. gl_play_read_callback env k0 = Returned 0 k
           \<and> frame_calls k = frame_calls k0 @
                [Call_draw_picture (texture (gl_play (gl_handle_xevents env k0)))
                   (gl_play_private_s.w (gl_play k0)) (gl_play_private_s.h (gl_play k0)) data]"
proof -
  from late have "\<not> util_timestamp env < timestamp pic_hdr" by simp
  with assms show ?thesis
    by (simp add: gl_play_read_callback_def stop_requested_def gl_handle_xevents_keeps
        gl_handle_xevents_frame_calls gl_play_draw_picture_def Let_def)
qed


text \<open>
  Claim C4, amended. A PICTURE message whose context is not the worker's own is ignored:
  the callback returns 0 and leaves the worker as the handling of the pending window
  events left it (unchanged when no event is pending). A PICTURE message for the own
  context that has not been created is not ignored: unless the worker is asked to stop,
  the callback reports it on \<open>stderr\<close> and returns \<open>EINVAL\<close>; when the worker is asked
  to stop, the callback returns 0. In all these cases nothing is rendered and the context
  stays as it was.
\<close>

theorem picture_other_or_uncreated_context:
  assumes msg: "message (state k0) = Picture_message pic_hdr data"
  shows "(glc_picture_header_t.ctx pic_hdr \<noteq> ctx_i (gl_play k0) \<longrightarrow>
            gl_play_read_callback env k0 = Returned 0 (gl_handle_xevents env k0))
       \<and> (glc_picture_header_t.ctx pic_hdr = ctx_i (gl_play k0) \<and> created (gl_play k0) = 0
            \<and> \<not> stop_requested env k0 \<longrightarrow>
            gl_play_read_callback env k0 =
              Returned EINVAL
                (play_call (Stderr_uninitialized_ctx (glc_picture_header_t.ctx pic_hdr))
                   (gl_handle_xevents env k0)))
       \<and> (glc_picture_header_t.ctx pic_hdr \<noteq> ctx_i (gl_play k0) \<or> created (gl_play k0) = 0 \<longrightarrow>
            renders (final_state (gl_play_read_callback env k0)) = renders k0
            \<and> created (gl_play (final_state (gl_play_read_callback env k0))) = created (gl_play k0))
       \<and> (pending env = [] \<longrightarrow> gl_handle_xevents env k0 = k0)
       \<and> EINVAL \<noteq> 0
       \<and> (stop_requested env k0 \<longrightarrow>
            gl_play_read_callback env k0 = Returned 0 (gl_handle_xevents env k0))"
proof -
  have a: "glc_picture_header_t.ctx pic_hdr \<noteq> ctx_i (gl_play k0) \<longrightarrow>
            gl_play_read_callback env k0 = Returned 0 (gl_handle_xevents env k0)"
    using msg by (simp add: gl_play_read_callback_def gl_handle_xevents_keeps Let_def)
  have b: "glc_picture_header_t.ctx pic_hdr = ctx_i (gl_play k0) \<and> created (gl_play k0) = 0
            \<and> \<not> stop_requested env k0 \<longrightarrow>
            gl_play_read_callback env k0 =
              Returned EINVAL
                (play_call (Stderr_uninitialized_ctx (glc_picture_header_t.ctx pic_hdr))
                   (gl_handle_xevents env k0))"
    using msg
    by (simp add: gl_play_read_callback_def stop_requested_def gl_handle_xevents_keeps Let_def)
  have c: "glc_picture_header_t.ctx pic_hdr \<noteq> ctx_i (gl_play k0) \<or> created (gl_play k0) = 0 \<longrightarrow>
            renders (final_state (gl_play_read_callback env k0)) = renders k0
            \<and> created (gl_play (final_state (gl_play_read_callback env k0))) = created (gl_play k0)"
    using msg
    by (simp add: gl_play_read_callback_def final_state_def gl_handle_xevents_keeps Let_def)
  have d: "pending env = [] \<longrightarrow> gl_handle_xevents env k0 = k0"
    by (simp add: gl_handle_xevents_def)
  have e: "EINVAL \<noteq> 0"
    by (simp add: EINVAL_def)
  have f: "stop_requested env k0 \<longrightarrow>
            gl_play_read_callback env k0 = Returned 0 (gl_handle_xevents env k0)"
    by (simp add: gl_play_read_callback_def stop_requested_def Let_def)
  from a b c d e f show ?thesis by blast
qed

theorem picture_other_or_uncreated_context_witness:
  "gl_play_read_callback (quiet_environment 0) (fresh_worker (picture_for 2 1000))
     = Returned 0 (fresh_worker (picture_for 2 1000))
   \<and> gl_play_read_callback (quiet_environment 0) (fresh_worker (picture_for 1 1000))
     = Returned 22 (play_call (Stderr_uninitialized_ctx 1) (fresh_worker (picture_for 1 1000)))
   \<and> renders (final_state (gl_play_read_callback (quiet_environment 0)
        (fresh_worker (picture_for 1 1000)))) = 0
   \<and> stop_requested ((quiet_environment 0) \<lparr> pending := [DestroyNotify] \<rparr>)
        (fresh_worker (picture_for 1 1000))
   \<and> gl_play_read_callback ((quiet_environment 0) \<lparr> pending := [DestroyNotify] \<rparr>)
        (fresh_worker (picture_for 1 1000))
     = Returned 0
         ((fresh_worker (picture_for 1 1000))
            \<lparr> state := \<lparr> glc_thread_state_t.flags = 8, message = picture_for 1 1000 \<rparr> \<rparr>)"
proof -
  have m2: "message (state (fresh_worker (picture_for 2 1000)))
      = Picture_message \<lparr> timestamp = 1000, glc_picture_header_t.ctx = 2 \<rparr> [0, 0, 0]"
    by (simp add: picture_for_def)
  have m1: "message (state (fresh_worker (picture_for 1 1000)))
      = Picture_message \<lparr> timestamp = 1000, glc_picture_header_t.ctx = 1 \<rparr> [0, 0, 0]"
    by (simp add: picture_for_def)
  have run: "\<not> stop_requested (quiet_environment 0) (fresh_worker (picture_for 1 1000))"
    by (simp add: stop_requested_def)
  have h: "gl_handle_xevents ((quiet_environment 0) \<lparr> pending := [DestroyNotify] \<rparr>)
        (fresh_worker (picture_for 1 1000))
      = (fresh_worker (picture_for 1 1000))
            \<lparr> state := \<lparr> glc_thread_state_t.flags = 8, message = picture_for 1 1000 \<rparr> \<rparr>"
    by (simp add: gl_handle_xevents_def handle_xevent_def quiet_environment_def fresh_worker_def)
  have stop: "stop_requested ((quiet_environment 0) \<lparr> pending := [DestroyNotify] \<rparr>)
        (fresh_worker (picture_for 1 1000))"
    by (simp add: stop_requested_def h)
  from picture_other_or_uncreated_context [OF m2, of "quiet_environment 0"]
       picture_other_or_uncreated_context [OF m1, of "quiet_environment 0"]
       picture_other_or_uncreated_context [OF m1,
         of "(quiet_environment 0) \<lparr> pending := [DestroyNotify] \<rparr>"]
       run stop h
  show ?thesis
    by (simp add: EINVAL_def renders_def final_state_def)
qed

text \<open>
  Claim C4 as stated fails for the own context: a PICTURE message for context 1 sent to
  a fresh worker for context 1 makes the callback return \<open>EINVAL\<close> (22), not 0.
\<close>

theorem picture_for_uncreated_context_is_error:
  "message (state (fresh_worker (picture_for 1 1000))) = picture_for 1 1000
   \<and> ctx_i (gl_play (fresh_worker (picture_for 1 1000))) = 1
   \<and> created (gl_play (fresh_worker (picture_for 1 1000))) = 0
   \<and> gl_play_read_callback (quiet_environment 0) (fresh_worker (picture_for 1 1000))
      = Returned 22
          ((fresh_worker (picture_for 1 1000)) \<lparr> play_calls := [Stderr_uninitialized_ctx 1] \<rparr>)"
  by (simp add: gl_play_read_callback_def picture_for_def play_call_def EINVAL_def Let_def)

lemma handle_xevent_no_stop:
  "\<not> is_stop_event e \<Longrightarrow> state (handle_xevent env k e) = state k"
  by (cases e) (simp_all add: handle_xevent_def gl_play_update_viewport_def play_call_def Let_def)

lemma no_stop_event_no_stop:
  "\<not> list_ex is_stop_event es \<Longrightarrow> state (foldl (handle_xevent env) k es) = state k"
  by (induction es arbitrary: k) (simp_all add: handle_xevent_no_stop)

lemma not_stop_requested:
  assumes "glc_thread_state_t.flags (state k0) AND GLC_THREAD_STOP env = 0"
      and "\<not> list_ex is_stop_event (pending env)"
  shows "\<not> stop_requested env k0"
  using assms by (simp add: stop_requested_def gl_handle_xevents_def no_stop_event_no_stop)

text \<open>
  Claim C5. Before any CREATE the worker has no window, so no event that reports a window
  destroyed or closed can be pending; the worker runs, its stop flag clear. Then a CTX
  message for the worker's own context with the UPDATE bit and without the CREATE bit,
  received while the context is not created, makes the callback return \<open>EINVAL\<close>, which
  is not zero; nothing is rendered or swapped and the context stays uncreated.
\<close>

theorem update_before_create_is_error:
  assumes msg: "message (state k0) = Ctx_message ctx_msg"
      and own: "glc_ctx_message_t.ctx ctx_msg = ctx_i (gl_play k0)"
      and upd: "glc_ctx_message_t.flags ctx_msg AND GLC_CTX_UPDATE \<noteq> 0"
      and ncr: "glc_ctx_message_t.flags ctx_msg AND GLC_CTX_CREATE = 0"
      and fresh: "created (gl_play k0) = 0"
      and running: "glc_thread_state_t.flags (state k0) AND GLC_THREAD_STOP env = 0"
      and no_window: "\<not> list_ex is_stop_event (pending env)"
  shows "\<exists>k. gl_play_read_callback env k0 = Returned EINVAL k \<and> EINVAL \<noteq> 0
           \<and> renders k = renders k0 \<and> frame_calls k = frame_calls k0
           \<and> created (gl_play k) = 0"
proof -
  from running no_window have "\<not> stop_requested env k0"
    by (rule not_stop_requested)
  with msg own upd ncr fresh show ?thesis
    by (simp add: gl_play_read_callback_def stop_requested_def gl_handle_xevents_keeps
        gl_handle_xevents_frame_calls gl_play_update_ctx_def EINVAL_def Let_def)
qed

theorem update_before_create_is_error_witness:
  "glc_thread_state_t.flags (state (fresh_worker (ctx_message 6 1)))
      AND GLC_THREAD_STOP ((quiet_environment 0) \<lparr> pending := [KeyPress 65, Other_event] \<rparr>) = 0
   \<and> \<not> list_ex is_stop_event
        (pending ((quiet_environment 0) \<lparr> pending := [KeyPress 65, Other_event] \<rparr>))
   \<and> (\<exists>k. gl_play_read_callback ((quiet_environment 0) \<lparr> pending := [KeyPress 65, Other_event] \<rparr>)
              (fresh_worker (ctx_message 6 1)) = Returned 22 k
          \<and> renders k = 0 \<and> frame_calls k = [] \<and> created (gl_play k) = 0)
   \<and> (\<exists>k. gl_play_read_callback (quiet_environment 0) (fresh_worker (ctx_message 2 1))
              = Returned 22 k
          \<and> renders k = 0 \<and> frame_calls k = [] \<and> created (gl_play k) = 0)"
proof -
  let ?env = "(quiet_environment 0) \<lparr> pending := [KeyPress 65, Other_event] \<rparr>"
  have m6: "message (state (fresh_worker (ctx_message 6 1)))
      = Ctx_message \<lparr> glc_ctx_message_t.flags = 6, glc_ctx_message_t.ctx = 1,
                      glc_ctx_message_t.w = 640, glc_ctx_message_t.h = 480 \<rparr>"
    by (simp add: ctx_message_def)
  have m2: "message (state (fresh_worker (ctx_message 2 1)))
      = Ctx_message \<lparr> glc_ctx_message_t.flags = 2, glc_ctx_message_t.ctx = 1,
                      glc_ctx_message_t.w = 640, glc_ctx_message_t.h = 480 \<rparr>"
    by (simp add: ctx_message_def)
  have r6: "glc_thread_state_t.flags (state (fresh_worker (ctx_message 6 1)))
      AND GLC_THREAD_STOP ?env = 0"
    by simp
  have n6: "\<not> list_ex is_stop_event (pending ?env)"
    by simp
  have r2: "glc_thread_state_t.flags (state (fresh_worker (ctx_message 2 1)))
      AND GLC_THREAD_STOP (quiet_environment 0) = 0"
    by simp
  have n2: "\<not> list_ex is_stop_event (pending (quiet_environment 0))"
    by simp
  have z: "renders (fresh_worker m) = 0" "frame_calls (fresh_worker m) = []" for m
    by (simp_all add: renders_def frame_calls_def)
  from update_before_create_is_error [OF m6 _ _ _ _ r6 n6]
  have a: "\<exists>k. gl_play_read_callback ?env (fresh_worker (ctx_message 6 1)) = Returned 22 k
          \<and> renders k = 0 \<and> frame_calls k = [] \<and> created (gl_play k) = 0"
    by (simp add: GLC_CTX_UPDATE_def GLC_CTX_CREATE_def EINVAL_def z)
  from update_before_create_is_error [OF m2 _ _ _ _ r2 n2]
  have b: "\<exists>k. gl_play_read_callback (quiet_environment 0) (fresh_worker (ctx_message 2 1))
              = Returned 22 k
          \<and> renders k = 0 \<and> frame_calls k = [] \<and> created (gl_play k) = 0"
    by (simp add: GLC_CTX_UPDATE_def GLC_CTX_CREATE_def EINVAL_def z)
  from r6 n6 a b show ?thesis by blast
qed

text \<open>
  Claim C10. For a CTX message for the worker's own context with the BGR and CREATE bits,
  when \<open>gl_play_create_ctx\<close>, run on the worker with the message's width and height
  stored, returns a non-zero code \<open>r\<close>, the callback returns 0 all the same, with the
  state \<open>gl_play_create_ctx\<close> left and no report on \<open>stderr\<close>. (When the worker is asked
  to stop, the callback returns 0 before the message is looked at.)
\<close>

theorem create_failure_not_reported:
  assumes msg: "message (state k0) = Ctx_message ctx_msg"
      and own: "glc_ctx_message_t.ctx ctx_msg = ctx_i (gl_play k0)"
      and bgr: "glc_ctx_message_t.flags ctx_msg AND GLC_CTX_BGR \<noteq> 0"
      and cre: "glc_ctx_message_t.flags ctx_msg AND GLC_CTX_CREATE \<noteq> 0"
      and fails: "gl_play_create_ctx env
                    ((gl_handle_xevents env k0)
                       \<lparr> gl_play := (gl_play (gl_handle_xevents env k0))
                           \<lparr> gl_play_private_s.w := glc_ctx_message_t.w ctx_msg,
                             gl_play_private_s.h := glc_ctx_message_t.h ctx_msg \<rparr> \<rparr>)
                  = Returned r k'"
      and nonzero: "r \<noteq> 0"
  shows "gl_play_read_callback env k0 =
           Returned 0 (if stop_requested env k0 then gl_handle_xevents env k0 else k')"
  using assms
  by (simp add: gl_play_read_callback_def stop_requested_def gl_handle_xevents_keeps Let_def)

lemma gl_play_create_ctx_EAGAIN:
  assumes "glXChooseVisual env \<noteq> NULL" and "glXCreateContext env = NULL"
  shows "\<exists>k'. gl_play_create_ctx env k = Returned EAGAIN k'
            \<and> created (gl_play k') = created (gl_play k) \<and> renders k' = renders k"
  using assms by (simp add: gl_play_create_ctx_def Let_def)

theorem create_failure_not_reported_witness:
  "gl_play_create_ctx ((quiet_environment 0) \<lparr> glXCreateContext := NULL \<rparr>)
       ((fresh_worker (ctx_message 5 1))
          \<lparr> gl_play := (gl_play (fresh_worker (ctx_message 5 1)))
              \<lparr> gl_play_private_s.w := 640, gl_play_private_s.h := 480 \<rparr> \<rparr>)
     = Returned 11
         ((fresh_worker (ctx_message 5 1))
            \<lparr> gl_play := (gl_play (fresh_worker (ctx_message 5 1)))
                 \<lparr> gl_play_private_s.w := 640, gl_play_private_s.h := 480, drawable := 30 \<rparr>,
              play_calls := [Call_glXChooseVisual, Call_XCreateWindow 640 480,
                             Call_glXCreateContext] \<rparr>)
   \<and> gl_play_read_callback ((quiet_environment 0) \<lparr> glXCreateContext := NULL \<rparr>)
        (fresh_worker (ctx_message 5 1))
     = Returned 0
         ((fresh_worker (ctx_message 5 1))
            \<lparr> gl_play := (gl_play (fresh_worker (ctx_message 5 1)))
                 \<lparr> gl_play_private_s.w := 640, gl_play_private_s.h := 480, drawable := 30 \<rparr>,
              play_calls := [Call_glXChooseVisual, Call_XCreateWindow 640 480,
                             Call_glXCreateContext] \<rparr>)"
proof -
  let ?env = "(quiet_environment 0) \<lparr> glXCreateContext := NULL \<rparr>"
  let ?k0 = "fresh_worker (ctx_message 5 1)"
  let ?k' = "?k0 \<lparr> gl_play := (gl_play ?k0)
                 \<lparr> gl_play_private_s.w := 640, gl_play_private_s.h := 480, drawable := 30 \<rparr>,
              play_calls := [Call_glXChooseVisual, Call_XCreateWindow 640 480,
                             Call_glXCreateContext] \<rparr>"
  have h: "gl_handle_xevents ?env ?k0 = ?k0"
    by (simp add: gl_handle_xevents_def quiet_environment_def)
  have msg: "message (state ?k0)
      = Ctx_message \<lparr> glc_ctx_message_t.flags = 5, glc_ctx_message_t.ctx = 1,
                      glc_ctx_message_t.w = 640, glc_ctx_message_t.h = 480 \<rparr>"
    by (simp add: ctx_message_def)
  have fails: "gl_play_create_ctx ?env
       (?k0 \<lparr> gl_play := (gl_play ?k0) \<lparr> gl_play_private_s.w := 640, gl_play_private_s.h := 480 \<rparr> \<rparr>)
     = Returned 11 ?k'"
    by (simp add: gl_play_create_ctx_def quiet_environment_def NULL_def EAGAIN_def
        play_call_def Let_def fresh_worker_def gl_play_init_def)
  have run: "\<not> stop_requested ?env ?k0"
    by (simp add: stop_requested_def h)
  have "gl_play_read_callback ?env ?k0 = Returned 0 ?k'"
    using create_failure_not_reported [of ?k0 _ ?env 11 ?k', OF msg] fails run
    by (simp add: h GLC_CTX_BGR_def GLC_CTX_CREATE_def)
  with fails show ?thesis by simp
qed

end
